theory Spec2Isabelle
  imports Complex_Main "HOL-Library.Sublist"
begin

section \<open>Auto Montage Builder: effect selection, filter compilation and assembly\<close>

text \<open>
  A shallow embedding of the render core of the montage builder: the data classes of
  \<^verbatim>\<open>models.py\<close>, the effect selector \<^verbatim>\<open>EffectsManager\<close> and the assembly
  functions of \<^verbatim>\<open>engine.py\<close>, the filter compiler \<^verbatim>\<open>FilterGenerator\<close> of
  \<^verbatim>\<open>filters.py\<close>, and the probes of \<^verbatim>\<open>utils.py\<close>.

  Conventions. Python \<^verbatim>\<open>int\<close> is \<^typ>\<open>int\<close> (or \<^typ>\<open>nat\<close> for an index that only
  counts up from zero), Python \<^verbatim>\<open>float\<close> is \<^typ>\<open>real\<close>, \<^verbatim>\<open>str\<close> is
  \<^typ>\<open>string\<close>, \<^verbatim>\<open>None\<close> is \<^const>\<open>None\<close>. A method name that starts with an
  underscore loses it (\<^verbatim>\<open>_should_apply_capcut\<close> is \<open>should_apply_capcut\<close>). A raised
  exception that nothing catches is the result \<^const>\<open>None\<close> of an option-valued model.
\<close>

subsection \<open>The random module\<close>

text \<open>
  The process-wide generator of Python's \<^verbatim>\<open>random\<close> module is a stream of draws
  \<open>g 0, g 1, ...\<close> together with the position of the next draw. Every theorem holds for
  every stream. \<^verbatim>\<open>random.choice(xs)\<close> picks \<open>xs ! (draw mod len xs)\<close> and raises
  IndexError on an empty list; \<^verbatim>\<open>random.randint(a, b)\<close> picks \<open>a + draw mod (b - a + 1)\<close>.
\<close>

type_synonym rng = "nat \<Rightarrow> nat"

definition random_choice :: "rng \<Rightarrow> nat \<Rightarrow> 'a list \<Rightarrow> ('a \<times> nat) option" where
  "random_choice g p xs =
     (if xs = [] then None else Some (xs ! (g p mod length xs), Suc p))"

definition random_randint :: "rng \<Rightarrow> nat \<Rightarrow> int \<Rightarrow> int \<Rightarrow> int \<times> nat" where
  "random_randint g p a b = (a + int (g p) mod (b - a + 1), Suc p)"

subsection \<open>models.py: effect settings\<close>

record effect_settings =
  ken_burns :: "string list"
  ken_burns_intensity :: int
  kb_randomize :: bool
  kb_smooth_factor :: real
  transitions :: "string list"
  transition_duration :: real
  fade_in_from_black :: bool
  fade_in_duration :: real
  fade_out_to_black :: bool
  fade_out_duration :: real
  add_black_frame :: bool
  color_correction :: bool
  color_filter :: string
  vignette :: bool
  vignette_intensity :: int
  grain :: bool
  grain_intensity :: int
  blur_edges :: bool
  blur_intensity :: int
  audio_pitch :: string
  audio_effect :: string
  audio_stereo_enhance :: bool
  audio_normalize :: bool
  audio_compressor :: bool
  audio_limiter :: bool
  easing_type :: string
  motion_blur :: bool
  motion_blur_amount :: int
  capcut_effects :: "string list"
  scale_amplitude :: int
  zoom_burst_start :: int
  zoom_burst_decay :: int
  motion_effects :: "string list"
  motion_intensity :: int
  effect_frequency :: string
  effect_percent :: int
  effect_every :: int
  capcut_timing :: string

text \<open>The values of the enums \<^verbatim>\<open>KenBurnsEffect\<close>, \<^verbatim>\<open>TransitionType\<close> and \<^verbatim>\<open>CapCutEffect\<close>.\<close>

definition valid_ken_burns :: "string list" where
  "valid_ken_burns =
     [''zoomIn'', ''zoomOut'', ''panLeft'', ''panRight'', ''panUp'', ''panDown'',
      ''rotate'', ''diagonal'', ''zoomRotate'', ''parallax'', ''spiral'', ''shake'']"

definition valid_transitions :: "string list" where
  "valid_transitions =
     [''fade'', ''dissolve'', ''dip_black'', ''dip_white'', ''wipe'', ''slide'', ''push'',
      ''zoom'', ''blur'', ''pixelate'', ''glitch'', ''rotate'', ''squeeze'', ''morph'']"

definition valid_capcut :: "string list" where
  "valid_capcut =
     [''zoomBurst'', ''pulse'', ''bounce'', ''elastic'', ''wave'', ''glitch'', ''shake'',
      ''wobble'', ''pendulum'', ''swing'', ''spin'', ''flip'', ''zoomBlur'', ''chromatic'',
      ''rgbSplit'', ''distortion'']"

text \<open>\<^verbatim>\<open>EffectSettings._validate_effect_lists\<close> and \<^verbatim>\<open>EffectSettings.validate\<close>.\<close>

definition validate_effect_lists :: "effect_settings \<Rightarrow> effect_settings" where
  "validate_effect_lists s =
     (let ts = filter (\<lambda>t. t \<in> set valid_transitions) (transitions s)
      in s\<lparr>ken_burns := filter (\<lambda>e. e \<in> set valid_ken_burns) (ken_burns s),
            transitions := (if ts = [] then [''fade''] else ts),
            capcut_effects := filter (\<lambda>c. c \<in> set valid_capcut) (capcut_effects s),
            motion_effects := filter (\<lambda>m. m \<in> set valid_capcut) (motion_effects s)\<rparr>)"

definition effect_settings_validate :: "effect_settings \<Rightarrow> effect_settings" where
  "effect_settings_validate s =
     validate_effect_lists
       (s\<lparr>ken_burns_intensity := max 0 (min 100 (ken_burns_intensity s)),
          kb_smooth_factor := max 0 (min 1 (kb_smooth_factor s)),
          transition_duration := max (1/10) (min 5 (transition_duration s)),
          fade_in_duration := max (1/10) (min 5 (fade_in_duration s)),
          fade_out_duration := max (1/10) (min 5 (fade_out_duration s)),
          vignette_intensity := max 0 (min 100 (vignette_intensity s)),
          grain_intensity := max 0 (min 100 (grain_intensity s)),
          blur_intensity := max 0 (min 100 (blur_intensity s)),
          scale_amplitude := max 0 (min 100 (scale_amplitude s)),
          zoom_burst_start := max 100 (min 300 (zoom_burst_start s)),
          zoom_burst_decay := max 0 (min 100 (zoom_burst_decay s)),
          motion_intensity := max 0 (min 100 (motion_intensity s)),
          effect_percent := max 0 (min 100 (effect_percent s)),
          effect_every := max 1 (min 10 (effect_every s))\<rparr>)"

subsection \<open>engine.py: EffectsManager\<close>

text \<open>
  The dictionary returned by \<^verbatim>\<open>get_effects_for_clip\<close> has the three fixed keys
  \<^verbatim>\<open>ken_burns\<close>, \<^verbatim>\<open>capcut_start\<close> and \<^verbatim>\<open>capcut_end\<close>.
\<close>

record clip_effects =
  fx_ken_burns :: "string option"
  fx_capcut_start :: "string option"
  fx_capcut_end :: "string option"

record effects_manager =
  settings :: effect_settings
  used_effects :: "string list"

definition effects_manager_init :: "effect_settings \<Rightarrow> effects_manager" where
  "effects_manager_init s = \<lparr>settings = s, used_effects = []\<rparr>"

text \<open>The slice \<^verbatim>\<open>xs[-2:]\<close>: the last two elements, or all of a shorter list.\<close>

definition last_two :: "'a list \<Rightarrow> 'a list" where
  "last_two xs = drop (length xs - 2) xs"

text \<open>
  \<^verbatim>\<open>_should_apply_capcut\<close>. The remainder \<^verbatim>\<open>(clip_index + 1) % effect_every\<close> raises
  ZeroDivisionError when \<^verbatim>\<open>effect_every\<close> is zero.
\<close>

definition should_apply_capcut ::
  "rng \<Rightarrow> effect_settings \<Rightarrow> nat \<Rightarrow> nat \<Rightarrow> (bool \<times> nat) option" where
  "should_apply_capcut g s clip_index p =
     (if effect_frequency s = ''all'' then Some (True, p)
      else if effect_frequency s = ''percent'' then
        (let (r, p') = random_randint g p 1 100 in Some (r \<le> effect_percent s, p'))
      else if effect_frequency s = ''every'' then
        (if effect_every s = 0 then None
         else Some ((int clip_index + 1) mod effect_every s = 0, p))
      else if effect_frequency s = ''random'' then random_choice g p [True, False]
      else Some (False, p))"

text \<open>The Ken Burns part of \<^verbatim>\<open>get_effects_for_clip\<close> (lines 840 to 854).\<close>

definition select_ken_burns ::
  "rng \<Rightarrow> effects_manager \<Rightarrow> nat \<Rightarrow> nat \<Rightarrow> (string option \<times> effects_manager \<times> nat) option" where
  "select_ken_burns g m clip_index p =
     (let kb = ken_burns (settings m) in
      if kb \<noteq> [] then
        (if kb_randomize (settings m) then
           (let available = filter (\<lambda>e. e \<notin> set (last_two (used_effects m))) kb;
                available = (if available = [] then kb else available)
            in case random_choice g p available of
                 None \<Rightarrow> None
               | Some (e, p') \<Rightarrow> Some (Some e, m\<lparr>used_effects := used_effects m @ [e]\<rparr>, p'))
         else Some (Some (kb ! (clip_index mod length kb)), m, p))
      else Some (None, m, p))"

text \<open>The CapCut part of \<^verbatim>\<open>get_effects_for_clip\<close> (lines 856 to 868): three independent tests of the timing.\<close>

definition select_capcut ::
  "rng \<Rightarrow> effect_settings \<Rightarrow> nat \<Rightarrow> nat \<Rightarrow> (string option \<times> string option \<times> nat) option" where
  "select_capcut g s clip_index p =
     (if capcut_effects s = [] then Some (None, None, p)
      else case should_apply_capcut g s clip_index p of
        None \<Rightarrow> None
      | Some (False, p0) \<Rightarrow> Some (None, None, p0)
      | Some (True, p0) \<Rightarrow>
          (let all_effects = capcut_effects s @ motion_effects s in
           case (if capcut_timing s \<in> set [''start'', ''random'']
                 then map_option (\<lambda>(e, q). (Some e, q)) (random_choice g p0 all_effects)
                 else Some (None, p0)) of
             None \<Rightarrow> None
           | Some (st, p1) \<Rightarrow>
          (case (if capcut_timing s \<in> set [''end'', ''random'']
                 then map_option (\<lambda>(e, q). (Some e, q)) (random_choice g p1 all_effects)
                 else Some (None, p1)) of
             None \<Rightarrow> None
           | Some (en, p2) \<Rightarrow>
          (if capcut_timing s = ''middle''
           then map_option (\<lambda>(e, q). (Some e, en, q)) (random_choice g p2 all_effects)
           else Some (st, en, p2)))))"

definition get_effects_for_clip ::
  "rng \<Rightarrow> effects_manager \<Rightarrow> nat \<Rightarrow> nat \<Rightarrow> nat \<Rightarrow> (clip_effects \<times> effects_manager \<times> nat) option" where
  "get_effects_for_clip g m clip_index total_clips p =
     (case select_ken_burns g m clip_index p of
        None \<Rightarrow> None
      | Some (kb, m', p') \<Rightarrow>
          (case select_capcut g (settings m') clip_index p' of
             None \<Rightarrow> None
           | Some (st, en, p'') \<Rightarrow>
               Some (\<lparr>fx_ken_burns = kb, fx_capcut_start = st, fx_capcut_end = en\<rparr>, m', p'')))"

text \<open>
  The calls the per-clip loop of \<^verbatim>\<open>generate_channel_montage\<close> makes on one manager, for the
  clip indices \<open>i, i + 1, ..., n - 1\<close> in order: the effect assignments of a clip sequence.
\<close>

function effects_for_clips ::
  "rng \<Rightarrow> effects_manager \<Rightarrow> nat \<Rightarrow> nat \<Rightarrow> nat \<Rightarrow> (clip_effects list \<times> effects_manager \<times> nat) option" where
  "effects_for_clips g m i n p =
     (if i < n then
        (case get_effects_for_clip g m i n p of
           None \<Rightarrow> None
         | Some (fx, m', p') \<Rightarrow>
             (case effects_for_clips g m' (Suc i) n p' of
                None \<Rightarrow> None
              | Some (fxs, m'', p'') \<Rightarrow> Some (fx # fxs, m'', p'')))
      else Some ([], m, p))"
  by pat_completeness auto
termination
  by (relation "measure (\<lambda>(g, m, i, n, p). n - i)") auto

declare effects_for_clips.simps [simp del]

text \<open>
  The anti-repetition invariant of a sequence of picks \<open>ks\<close> made after the history \<open>u\<close>:
  each pick differs from the last two entries of the history before it.
\<close>

fun no_repeat_from :: "string list \<Rightarrow> string list \<Rightarrow> bool" where
  "no_repeat_from u [] = True"
| "no_repeat_from u (k # ks) = (k \<notin> set (last_two u) \<and> no_repeat_from (u @ [k]) ks)"

subsection \<open>Concrete settings\<close>

text \<open>The defaults of the data class \<^verbatim>\<open>EffectSettings\<close>, restricted to the fields modelled.\<close>

definition default_effects :: effect_settings where
  "default_effects = \<lparr>
     ken_burns = [], ken_burns_intensity = 30, kb_randomize = False, kb_smooth_factor = 7/10,
     transitions = [''fade''], transition_duration = 1,
     fade_in_from_black = False, fade_in_duration = 1,
     fade_out_to_black = False, fade_out_duration = 1, add_black_frame = True,
     color_correction = False, color_filter = ''none'', vignette = False, vignette_intensity = 40,
     grain = False, grain_intensity = 20, blur_edges = False, blur_intensity = 30,
     audio_pitch = ''0'', audio_effect = ''none'', audio_stereo_enhance = False,
     audio_normalize = True, audio_compressor = False, audio_limiter = False,
     easing_type = ''ease'', motion_blur = False, motion_blur_amount = 20,
     capcut_effects = [], scale_amplitude = 15, zoom_burst_start = 150, zoom_burst_decay = 80,
     motion_effects = [], motion_intensity = 30, effect_frequency = ''all'',
     effect_percent = 50, effect_every = 3, capcut_timing = ''start''\<rparr>"

text \<open>The generator whose every draw is zero.\<close>

definition rng_zero :: rng where
  "rng_zero = (\<lambda>_. 0)"

definition settings_every3 :: effect_settings where
  "settings_every3 =
     default_effects\<lparr>capcut_effects := [''pulse''], effect_frequency := ''every''\<rparr>"

definition settings_timing_random :: effect_settings where
  "settings_timing_random =
     default_effects\<lparr>capcut_effects := [''pulse''], capcut_timing := ''random''\<rparr>"

definition settings_kb_duplicates :: effect_settings where
  "settings_kb_duplicates =
     default_effects\<lparr>ken_burns := [''zoomIn'', ''zoomIn'', ''zoomOut''], kb_randomize := True\<rparr>"

definition settings_kb_three :: effect_settings where
  "settings_kb_three =
     default_effects\<lparr>ken_burns := [''zoomIn'', ''zoomOut'', ''panLeft''], kb_randomize := True\<rparr>"

definition manager_after_two :: effects_manager where
  "manager_after_two = \<lparr>settings = settings_kb_duplicates, used_effects = [''zoomIn'', ''zoomOut'']\<rparr>"

definition picks_kb_three :: "clip_effects list" where
  "picks_kb_three =
     [\<lparr>fx_ken_burns = Some ''zoomIn'', fx_capcut_start = None, fx_capcut_end = None\<rparr>,
      \<lparr>fx_ken_burns = Some ''zoomOut'', fx_capcut_start = None, fx_capcut_end = None\<rparr>,
      \<lparr>fx_ken_burns = Some ''panLeft'', fx_capcut_start = None, fx_capcut_end = None\<rparr>]"

definition picks_kb_duplicates :: "clip_effects list" where
  "picks_kb_duplicates =
     [\<lparr>fx_ken_burns = Some ''zoomIn'', fx_capcut_start = None, fx_capcut_end = None\<rparr>,
      \<lparr>fx_ken_burns = Some ''zoomOut'', fx_capcut_start = None, fx_capcut_end = None\<rparr>,
      \<lparr>fx_ken_burns = Some ''zoomIn'', fx_capcut_start = None, fx_capcut_end = None\<rparr>]"

subsection \<open>Python strings and numbers\<close>

text \<open>
  \<^verbatim>\<open>str(n)\<close> of an integer, in decimal. \<^verbatim>\<open>str(x)\<close> of a float is Python's shortest
  decimal that reads back as \<open>x\<close>; it is not defined here: every function that formats a float
  takes the formatter as its first argument \<open>fstr\<close>, and every theorem holds for every formatter.
\<close>

fun str_nat :: "nat \<Rightarrow> string" where
  "str_nat n =
     (if n < 10 then [''0123456789'' ! n]
      else str_nat (n div 10) @ [''0123456789'' ! (n mod 10)])"

declare str_nat.simps [simp del]

definition str_int :: "int \<Rightarrow> string" where
  "str_int i = (if i < 0 then CHR ''-'' # str_nat (nat (- i)) else str_nat (nat i))"

text \<open>\<^verbatim>\<open>int(x)\<close> of a float truncates towards zero.\<close>

definition py_int :: "real \<Rightarrow> int" where
  "py_int x = (if 0 \<le> x then \<lfloor>x\<rfloor> else \<lceil>x\<rceil>)"

text \<open>\<^verbatim>\<open>sep.join(xs)\<close>.\<close>

fun join :: "string \<Rightarrow> string list \<Rightarrow> string" where
  "join sep [] = []"
| "join sep [x] = x"
| "join sep (x # y # ys) = x @ sep @ join sep (y # ys)"

text \<open>The single quote, which delimits expressions inside a filter text.\<close>

definition sq :: string where
  "sq = [CHR 0x27]"

subsection \<open>Expressions of the transcoder\<close>

text \<open>
  The filter compiler builds arithmetic expressions as text and splices one text into another;
  the transcoder parses the result with its own grammar. To say what a spliced text evaluates
  to, an expression text is kept as its sequence of tokens. A number token carries the
  characters written and the value the transcoder reads from them; \<open>render\<close> gives the
  characters of a token sequence, which is the text the Python code builds.
\<close>

datatype tok = TNum string real | TId string | TSym char | TSp

fun render_tok :: "tok \<Rightarrow> string" where
  "render_tok (TNum s x) = s"
| "render_tok (TId s) = s"
| "render_tok (TSym c) = [c]"
| "render_tok TSp = '' ''"

definition render :: "tok list \<Rightarrow> string" where
  "render ts = concat (map render_tok ts)"

text \<open>A float formatted into an expression: its characters are \<open>fstr x\<close>, its value is \<open>x\<close>.\<close>

definition num :: "(real \<Rightarrow> string) \<Rightarrow> real \<Rightarrow> tok" where
  "num fstr x = TNum (fstr x) x"

text \<open>
  The functions of the expression language that the compiled expressions use. \<open>pow\<close> with a
  natural exponent is the power; \<open>lt\<close> is 1 or 0; \<open>if\<close> takes its second argument when the
  first is not zero.
\<close>

definition apply_fun :: "string \<Rightarrow> real list \<Rightarrow> real option" where
  "apply_fun f xs =
     (if f = ''pow'' then
        (case xs of
           [x, y] \<Rightarrow>
             (if 0 \<le> y \<and> y = real_of_int \<lfloor>y\<rfloor> then Some (x ^ nat \<lfloor>y\<rfloor>)
              else if 0 < x then Some (x powr y) else None)
         | _ \<Rightarrow> None)
      else if f = ''sin'' then (case xs of [x] \<Rightarrow> Some (sin x) | _ \<Rightarrow> None)
      else if f = ''cos'' then (case xs of [x] \<Rightarrow> Some (cos x) | _ \<Rightarrow> None)
      else if f = ''exp'' then (case xs of [x] \<Rightarrow> Some (exp x) | _ \<Rightarrow> None)
      else if f = ''abs'' then (case xs of [x] \<Rightarrow> Some \<bar>x\<bar> | _ \<Rightarrow> None)
      else if f = ''lt'' then (case xs of [x, y] \<Rightarrow> Some (if x < y then 1 else 0) | _ \<Rightarrow> None)
      else if f = ''if'' then
        (case xs of [c, x, y] \<Rightarrow> Some (if c \<noteq> 0 then x else y) | _ \<Rightarrow> None)
      else None)"

text \<open>
  The grammar of the expression evaluator, by recursive descent: a sum of terms, a term a
  product or quotient of factors, a factor a signed primary, a primary a number, a variable, a
  function call or a parenthesised sum. Sums and products associate to the left. One function
  serves all nonterminals, so that the recursion is on the fuel alone (one unit per call).
  A result is the list of values read (one value, or the arguments of a call) and the tokens
  left; \<^const>\<open>None\<close> is a text that does not parse, a division by zero, an unknown name or
  too little fuel.
\<close>

datatype nonterm =
  NSub | NSubRest real | NTerm | NTermRest real | NFactor | NPrimary | NArgs "real list"

primrec parse ::
  "(string \<Rightarrow> real option) \<Rightarrow> nat \<Rightarrow> nonterm \<Rightarrow> tok list \<Rightarrow> (real list \<times> tok list) option"
where
  "parse v 0 k ts = None"
| "parse v (Suc n) k ts =
     (case k of
        NSub \<Rightarrow>
          (case parse v n NTerm ts of
             Some ([a], r) \<Rightarrow> parse v n (NSubRest a) r
           | _ \<Rightarrow> None)
      | NSubRest a \<Rightarrow>
          (if ts \<noteq> [] \<and> hd ts = TSym (CHR ''+'') then
             (case parse v n NTerm (tl ts) of
                Some ([b], r) \<Rightarrow> parse v n (NSubRest (a + b)) r
              | _ \<Rightarrow> None)
           else if ts \<noteq> [] \<and> hd ts = TSym (CHR ''-'') then
             (case parse v n NTerm (tl ts) of
                Some ([b], r) \<Rightarrow> parse v n (NSubRest (a - b)) r
              | _ \<Rightarrow> None)
           else Some ([a], ts))
      | NTerm \<Rightarrow>
          (case parse v n NFactor ts of
             Some ([a], r) \<Rightarrow> parse v n (NTermRest a) r
           | _ \<Rightarrow> None)
      | NTermRest a \<Rightarrow>
          (if ts \<noteq> [] \<and> hd ts = TSym (CHR ''*'') then
             (case parse v n NFactor (tl ts) of
                Some ([b], r) \<Rightarrow> parse v n (NTermRest (a * b)) r
              | _ \<Rightarrow> None)
           else if ts \<noteq> [] \<and> hd ts = TSym (CHR ''/'') then
             (case parse v n NFactor (tl ts) of
                Some ([b], r) \<Rightarrow> (if b = 0 then None else parse v n (NTermRest (a / b)) r)
              | _ \<Rightarrow> None)
           else Some ([a], ts))
      | NFactor \<Rightarrow>
          (if ts \<noteq> [] \<and> hd ts = TSym (CHR ''-'') then
             (case parse v n NPrimary (tl ts) of
                Some ([a], r) \<Rightarrow> Some ([- a], r)
              | _ \<Rightarrow> None)
           else if ts \<noteq> [] \<and> hd ts = TSym (CHR ''+'') then parse v n NPrimary (tl ts)
           else parse v n NPrimary ts)
      | NPrimary \<Rightarrow>
          (case ts of
             [] \<Rightarrow> None
           | TNum s x # r \<Rightarrow> Some ([x], r)
           | TSym c # r \<Rightarrow>
               (if c = CHR ''('' then
                  (case parse v n NSub r of
                     Some ([a], r') \<Rightarrow>
                       (if r' \<noteq> [] \<and> hd r' = TSym (CHR '')'') then Some ([a], tl r') else None)
                   | _ \<Rightarrow> None)
                else None)
           | TId f # r \<Rightarrow>
               (if r \<noteq> [] \<and> hd r = TSym (CHR ''('') then
                  (case parse v n (NArgs []) (tl r) of
                     Some (xs, r') \<Rightarrow>
                       (case apply_fun f xs of None \<Rightarrow> None | Some x \<Rightarrow> Some ([x], r'))
                   | None \<Rightarrow> None)
                else (case v f of None \<Rightarrow> None | Some x \<Rightarrow> Some ([x], r)))
           | TSp # r \<Rightarrow> None)
      | NArgs acc \<Rightarrow>
          (case parse v n NSub ts of
             Some ([a], r) \<Rightarrow>
               (if r \<noteq> [] \<and> hd r = TSym (CHR '','') then parse v n (NArgs (acc @ [a])) (tl r)
                else if r \<noteq> [] \<and> hd r = TSym (CHR '')'') then Some (acc @ [a], tl r)
                else None)
           | _ \<Rightarrow> None))"

text \<open>
  The value of an expression text: white space is dropped first, as the evaluator does, and
  the whole text must be consumed. The fuel is ample: no call chain is longer than a few
  times the number of tokens.
\<close>

definition ffmpeg_eval :: "(string \<Rightarrow> real option) \<Rightarrow> tok list \<Rightarrow> real option" where
  "ffmpeg_eval v ts =
     (let ts' = filter (\<lambda>t. t \<noteq> TSp) ts in
      case parse v (8 * length ts' + 8) NSub ts' of
        Some ([x], []) \<Rightarrow> Some x
      | _ \<Rightarrow> None)"

subsection \<open>External processes and the file system\<close>

text \<open>
  The transcoder and its prober are external programs. A launch by \<^verbatim>\<open>subprocess.run\<close>
  either raises (the program cannot be started, its output cannot be decoded) or completes
  with a return code, its standard output, its diagnostic output and the fact whether it wrote
  its output file. What a launch does is given by an oracle, a function of the argument list
  and of the world at the launch, and every theorem holds for every oracle. A launch never
  removes a file. The world is the set of existing paths, the list of the argument lists
  launched so far (oldest first) and the position of the next random draw.
\<close>

datatype outcome = Exited int string string bool | Raised

record world =
  files :: "string set"
  launched :: "string list list"
  rng_pos :: nat

datatype json =
  JNull | JBool bool | JNum real | JStr string | JArr "json list" | JObj "(string \<times> json) list"

text \<open>
  The environment of a run: the float formatter \<^verbatim>\<open>str\<close>, the float reader \<^verbatim>\<open>float\<close>
  (\<^const>\<open>None\<close> when it raises ValueError), the JSON reader \<^verbatim>\<open>json.loads\<close>
  (\<^const>\<open>None\<close> when it raises), the results of \<^verbatim>\<open>get_ffmpeg_path\<close> and
  \<^verbatim>\<open>get_ffprobe_path\<close>, the oracle of the external programs and the stream of random draws.
\<close>

record env =
  fstr :: "real \<Rightarrow> string"
  pyfloat :: "string \<Rightarrow> real option"
  json_loads :: "string \<Rightarrow> json option"
  ffmpeg :: string
  ffprobe :: string
  tool :: "string list \<Rightarrow> world \<Rightarrow> outcome"
  draws :: "nat \<Rightarrow> nat"

text \<open>\<^verbatim>\<open>subprocess.run(cmd, ...)\<close>; \<open>out\<close> is the output path the command names, if any.\<close>

definition subprocess_run ::
  "env \<Rightarrow> string list \<Rightarrow> string option \<Rightarrow> world \<Rightarrow> outcome \<times> world" where
  "subprocess_run e cmd out w =
     (let r = tool e cmd w in
      (r, w\<lparr>files := (case (r, out) of
                         (Exited rc so se True, Some p) \<Rightarrow> insert p (files w)
                       | _ \<Rightarrow> files w),
             launched := launched w @ [cmd]\<rparr>))"

text \<open>\<^verbatim>\<open>Path.unlink\<close> and \<^verbatim>\<open>Path.rename\<close> raise on a missing file (\<^const>\<open>None\<close>).\<close>

definition unlink :: "string \<Rightarrow> world \<Rightarrow> world option" where
  "unlink p w = (if p \<in> files w then Some (w\<lparr>files := files w - {p}\<rparr>) else None)"

definition rename :: "string \<Rightarrow> string \<Rightarrow> world \<Rightarrow> world option" where
  "rename src dst w =
     (if src \<in> files w then Some (w\<lparr>files := insert dst (files w - {src})\<rparr>) else None)"

subsection \<open>utils.py: FFmpegUtils\<close>

text \<open>
  \<^verbatim>\<open>check_filter_available\<close>: one launch of the transcoder with \<^verbatim>\<open>-filters\<close> per call; the
  filter is available when its name occurs in the standard output.
\<close>

definition check_filter_available :: "env \<Rightarrow> string \<Rightarrow> world \<Rightarrow> bool \<times> world" where
  "check_filter_available e filter_name w =
     (case subprocess_run e [ffmpeg e, ''-filters''] None w of
        (Exited rc so se wr, w') \<Rightarrow> (sublist filter_name so, w')
      | (Raised, w') \<Rightarrow> (False, w'))"

text \<open>The values of the JSON document that \<^verbatim>\<open>get_duration\<close> inspects, with Python's rules.\<close>

definition py_truthy :: "json \<Rightarrow> bool" where
  "py_truthy j =
     (case j of JNull \<Rightarrow> False | JBool b \<Rightarrow> b | JNum x \<Rightarrow> x \<noteq> 0 | JStr s \<Rightarrow> s \<noteq> []
      | JArr xs \<Rightarrow> xs \<noteq> [] | JObj kvs \<Rightarrow> kvs \<noteq> [])"

text \<open>\<^verbatim>\<open>key in j\<close>; \<^const>\<open>None\<close> is the TypeError of a value that is no container.\<close>

definition py_contains :: "string \<Rightarrow> json \<Rightarrow> bool option" where
  "py_contains key j =
     (case j of
        JObj kvs \<Rightarrow> Some (key \<in> set (map fst kvs))
      | JArr xs \<Rightarrow> Some (JStr key \<in> set xs)
      | JStr s \<Rightarrow> Some (sublist key s)
      | _ \<Rightarrow> None)"

text \<open>\<^verbatim>\<open>j[key]\<close> with a string key; \<^const>\<open>None\<close> is KeyError or TypeError.\<close>

definition py_getitem :: "json \<Rightarrow> string \<Rightarrow> json option" where
  "py_getitem j key = (case j of JObj kvs \<Rightarrow> map_of kvs key | _ \<Rightarrow> None)"

text \<open>\<^verbatim>\<open>float(j)\<close>; \<^const>\<open>None\<close> is ValueError or TypeError.\<close>

definition py_float :: "env \<Rightarrow> json \<Rightarrow> real option" where
  "py_float e j =
     (case j of JStr s \<Rightarrow> pyfloat e s | JNum x \<Rightarrow> Some x
      | JBool b \<Rightarrow> Some (if b then 1 else 0) | _ \<Rightarrow> None)"

text \<open>The values a \<^verbatim>\<open>for\<close> loop over \<open>j\<close> visits; \<^const>\<open>None\<close> is TypeError.\<close>

definition py_iter :: "json \<Rightarrow> json list option" where
  "py_iter j =
     (case j of JArr xs \<Rightarrow> Some xs | JObj kvs \<Rightarrow> Some (map (\<lambda>kv. JStr (fst kv)) kvs)
      | JStr s \<Rightarrow> Some (map (\<lambda>c. JStr [c]) s) | _ \<Rightarrow> None)"

text \<open>\<^verbatim>\<open>get_media_info\<close>: the parsed output of the prober, or the empty dictionary.\<close>

definition get_media_info :: "env \<Rightarrow> string \<Rightarrow> world \<Rightarrow> json \<times> world" where
  "get_media_info e file_path w =
     (case subprocess_run e
             [ffprobe e, ''-v'', ''quiet'', ''-print_format'', ''json'', ''-show_format'',
              ''-show_streams'', file_path] None w of
        (Exited rc so se wr, w') \<Rightarrow>
          (if rc = 0 then (case json_loads e so of Some j \<Rightarrow> (j, w') | None \<Rightarrow> (JObj [], w'))
           else (JObj [], w'))
      | (Raised, w') \<Rightarrow> (JObj [], w'))"

text \<open>
  The search \<^verbatim>\<open>re.search(r'Duration: (\d{2}):(\d{2}):(\d{2})\.(\d{2})', text)\<close>: the first
  position at which the pattern matches, with the four numbers read.
\<close>

definition is_digit :: "char \<Rightarrow> bool" where
  "is_digit c = (c \<in> set ''0123456789'')"

definition two_digits :: "char \<Rightarrow> char \<Rightarrow> nat" where
  "two_digits a b = (of_char a - 48) * 10 + (of_char b - 48)"

definition match_duration :: "string \<Rightarrow> (nat \<times> nat \<times> nat \<times> nat) option" where
  "match_duration s =
     (if prefix ''Duration: '' s then
        (case drop 10 s of
           h1 # h2 # c1 # m1 # m2 # c2 # s1 # s2 # d # x1 # x2 # rest \<Rightarrow>
             (if is_digit h1 \<and> is_digit h2 \<and> c1 = CHR '':'' \<and> is_digit m1 \<and> is_digit m2 \<and>
                 c2 = CHR '':'' \<and> is_digit s1 \<and> is_digit s2 \<and> d = CHR ''.'' \<and>
                 is_digit x1 \<and> is_digit x2
              then Some (two_digits h1 h2, two_digits m1 m2, two_digits s1 s2, two_digits x1 x2)
              else None)
         | _ \<Rightarrow> None)
      else None)"

fun re_search_duration :: "string \<Rightarrow> (nat \<times> nat \<times> nat \<times> nat) option" where
  "re_search_duration [] = match_duration []"
| "re_search_duration (c # cs) =
     (case match_duration (c # cs) of Some r \<Rightarrow> Some r | None \<Rightarrow> re_search_duration cs)"

text \<open>
  \<^verbatim>\<open>get_duration\<close>, in its three attempts. In the first two the tests of the \<^verbatim>\<open>if\<close> stand
  outside any handler, so a TypeError there leaves the function (the outer \<^const>\<open>None\<close>);
  the conversions stand inside \<^verbatim>\<open>try\<close> and only fall through (the inner \<^const>\<open>None\<close>).
\<close>

definition try_float :: "env \<Rightarrow> json option \<Rightarrow> real option" where
  "try_float e v = (case v of None \<Rightarrow> None | Some j \<Rightarrow> py_float e j)"

definition format_duration :: "env \<Rightarrow> json \<Rightarrow> real option option" where
  "format_duration e info =
     (if \<not> py_truthy info then Some None
      else case py_contains ''format'' info of
        None \<Rightarrow> None
      | Some False \<Rightarrow> Some None
      | Some True \<Rightarrow>
          (case py_getitem info ''format'' of
             None \<Rightarrow> None
           | Some fmt \<Rightarrow>
               (case py_contains ''duration'' fmt of
                  None \<Rightarrow> None
                | Some False \<Rightarrow> Some None
                | Some True \<Rightarrow> Some (try_float e (py_getitem fmt ''duration'')))))"

fun first_stream_duration :: "env \<Rightarrow> json list \<Rightarrow> real option option" where
  "first_stream_duration e [] = Some None"
| "first_stream_duration e (stream # streams) =
     (case py_contains ''duration'' stream of
        None \<Rightarrow> None
      | Some False \<Rightarrow> first_stream_duration e streams
      | Some True \<Rightarrow>
          (case try_float e (py_getitem stream ''duration'') of
             Some d \<Rightarrow> Some (Some d)
           | None \<Rightarrow> first_stream_duration e streams))"

definition streams_duration :: "env \<Rightarrow> json \<Rightarrow> real option option" where
  "streams_duration e info =
     (if \<not> py_truthy info then Some None
      else case py_contains ''streams'' info of
        None \<Rightarrow> None
      | Some False \<Rightarrow> Some None
      | Some True \<Rightarrow>
          (case py_getitem info ''streams'' of
             None \<Rightarrow> None
           | Some ss \<Rightarrow>
               (case py_iter ss of None \<Rightarrow> None | Some xs \<Rightarrow> first_stream_duration e xs)))"

definition stderr_duration :: "env \<Rightarrow> string \<Rightarrow> world \<Rightarrow> real \<times> world" where
  "stderr_duration e file_path w =
     (case subprocess_run e [ffmpeg e, ''-i'', file_path, ''-f'', ''null'', ''-''] None w of
        (Exited rc so se wr, w') \<Rightarrow>
          (case re_search_duration se of
             Some (hours, minutes, seconds, centiseconds) \<Rightarrow>
               (real hours * 3600 + real minutes * 60 + real seconds + real centiseconds / 100, w')
           | None \<Rightarrow> (10, w'))
      | (Raised, w') \<Rightarrow> (10, w'))"

definition get_duration :: "env \<Rightarrow> string \<Rightarrow> world \<Rightarrow> real option \<times> world" where
  "get_duration e file_path w =
     (let (info, w1) = get_media_info e file_path w in
      case format_duration e info of
        None \<Rightarrow> (None, w1)
      | Some (Some d) \<Rightarrow> (Some d, w1)
      | Some None \<Rightarrow>
          (case streams_duration e info of
             None \<Rightarrow> (None, w1)
           | Some (Some d) \<Rightarrow> (Some d, w1)
           | Some None \<Rightarrow> (let (d, w2) = stderr_duration e file_path w1 in (Some d, w2))))"

subsection \<open>models.py: export and overlay settings\<close>

record video_quality =
  preset :: string
  crf :: int
  profile :: string
  level :: string
  pixel_format :: string
  color_space :: string
  color_range :: string

record export_settings =
  resolution :: string
  custom_width :: int
  custom_height :: int
  fps :: int
  bitrate :: int
  codec :: string
  quality :: video_quality
  use_gpu :: bool
  gpu_type :: string
  audio_bitrate :: int
  audio_codec :: string
  container :: string

record overlay_settings =
  enabled :: bool
  folder :: string
  overlay_files :: "string list"
  blend_mode :: string
  opacity :: int
  randomize :: bool
  position :: string
  scale :: int
  rotation :: int
  animate :: bool
  animation_type :: string

record channel =
  name :: string
  export :: export_settings
  effects :: effect_settings
  overlays :: overlay_settings

text \<open>A dictionary lookup with a default, \<^verbatim>\<open>d.get(k, default)\<close>.\<close>

definition dict_get :: "('k \<rightharpoonup> 'v) \<Rightarrow> 'k \<Rightarrow> 'v \<Rightarrow> 'v" where
  "dict_get d k dflt = (case d k of Some v \<Rightarrow> v | None \<Rightarrow> dflt)"

definition video_quality_validate :: "video_quality \<Rightarrow> video_quality" where
  "video_quality_validate q =
     q\<lparr>preset := (if preset q \<in> set [''ultrafast'', ''superfast'', ''veryfast'', ''faster'',
                        ''fast'', ''medium'', ''slow'', ''slower'', ''veryslow'']
                   then preset q else ''medium''),
       crf := max 0 (min 51 (crf q)),
       profile := (if profile q \<in> set [''baseline'', ''main'', ''high'']
                   then profile q else ''high'')\<rparr>"

definition export_settings_validate :: "export_settings \<Rightarrow> export_settings" where
  "export_settings_validate x =
     x\<lparr>custom_width := max 320 (min 7680 (custom_width x)),
       custom_height := max 240 (min 4320 (custom_height x)),
       fps := max 1 (min 120 (fps x)),
       bitrate := max 1 (min 100 (bitrate x)),
       audio_bitrate := max 64 (min 320 (audio_bitrate x)),
       quality := video_quality_validate (quality x)\<rparr>"

definition overlay_settings_validate :: "overlay_settings \<Rightarrow> overlay_settings" where
  "overlay_settings_validate ov =
     ov\<lparr>blend_mode := (if blend_mode ov \<in> set [''normal'', ''screen'', ''overlay'', ''multiply'',
                            ''add'', ''lighten'', ''darken'']
                        then blend_mode ov else ''screen''),
        position := (if position ov \<in> set [''center'', ''top-left'', ''top-right'',
                          ''bottom-left'', ''bottom-right'']
                      then position ov else ''center''),
        opacity := max 0 (min 100 (opacity ov)),
        scale := max 10 (min 200 (scale ov)),
        rotation := max (- 180) (min 180 (rotation ov))\<rparr>"

definition channel_validate :: "channel \<Rightarrow> channel" where
  "channel_validate c =
     c\<lparr>export := export_settings_validate (export c),
       effects := effect_settings_validate (effects c),
       overlays := overlay_settings_validate (overlays c)\<rparr>"

definition get_resolution :: "export_settings \<Rightarrow> int \<times> int" where
  "get_resolution x =
     (if resolution x = ''custom'' then (custom_width x, custom_height x)
      else dict_get
             (map_of [(''1920x1080'', (1920, 1080)), (''3840x2160'', (3840, 2160)),
                      (''2560x1440'', (2560, 1440)), (''1280x720'', (1280, 720)),
                      (''1080x1920'', (1080, 1920)), (''1080x1080'', (1080, 1080)),
                      (''720x1280'', (720, 1280))])
             (resolution x) (1920, 1080))"

subsection \<open>filters.py: FilterGenerator\<close>

text \<open>
  The generator holds one field, the dictionary \<^verbatim>\<open>available_filters\<close>, filled by its
  constructor with one call of \<^verbatim>\<open>check_filter_available\<close> per name.
\<close>

definition filters_to_check :: "string list" where
  "filters_to_check =
     [''zoompan'', ''scale'', ''rotate'', ''fade'', ''xfade'', ''crop'', ''overlay'',
      ''colorchannelmixer'', ''curves'', ''eq'', ''vignette'', ''noise'', ''gblur'',
      ''minterpolate'', ''split'', ''blend'', ''setpts'', ''fps'', ''format'']"

fun probe_filters :: "env \<Rightarrow> string list \<Rightarrow> world \<Rightarrow> (string \<times> bool) list \<times> world" where
  "probe_filters e [] w = ([], w)"
| "probe_filters e (filter_name # rest) w =
     (let (b, w1) = check_filter_available e filter_name w;
          (kvs, w2) = probe_filters e rest w1
      in ((filter_name, b) # kvs, w2))"

definition check_available_filters :: "env \<Rightarrow> world \<Rightarrow> (string \<rightharpoonup> bool) \<times> world" where
  "check_available_filters e w =
     (let (kvs, w') = probe_filters e filters_to_check w in (map_of kvs, w'))"

text \<open>
  \<^verbatim>\<open>get_easing_expression\<close>: the text of the easing function, with the texts \<open>t\<close> and
  \<open>duration\<close> spliced in; an unknown easing type gives the entry of \<^verbatim>\<open>ease\<close>.
\<close>

definition easing_map :: "tok list \<Rightarrow> tok list \<Rightarrow> (string \<times> tok list) list" where
  "easing_map t duration =
     [(''linear'',
        t @ [TSym (CHR ''/'')] @ duration),
      (''ease'',
        [TSym (CHR ''(''), TNum ''3'' 3, TSym (CHR ''*''), TId ''pow'', TSym (CHR ''('')] @ t @ [TSym (CHR ''/'')] @ duration @ [TSym (CHR '',''), TNum ''2'' 2, TSym (CHR '')''), TSp, TSym (CHR ''-''), TSp, TNum ''2'' 2, TSym (CHR ''*''), TId ''pow'', TSym (CHR ''('')] @ t @ [TSym (CHR ''/'')] @ duration @ [TSym (CHR '',''), TNum ''3'' 3, TSym (CHR '')''), TSym (CHR '')'')]),
      (''ease-in'',
        [TId ''pow'', TSym (CHR ''('')] @ t @ [TSym (CHR ''/'')] @ duration @ [TSym (CHR '',''), TNum ''2'' 2, TSym (CHR '')'')]),
      (''ease-out'',
        [TSym (CHR ''(''), TNum ''1'' 1, TSp, TSym (CHR ''-''), TSp, TId ''pow'', TSym (CHR ''(''), TNum ''1'' 1, TSym (CHR ''-'')] @ t @ [TSym (CHR ''/'')] @ duration @ [TSym (CHR '',''), TNum ''2'' 2, TSym (CHR '')''), TSym (CHR '')'')]),
      (''ease-in-out'',
        [TId ''if'', TSym (CHR ''(''), TId ''lt'', TSym (CHR ''('')] @ t @ [TSym (CHR '','')] @ duration @ [TSym (CHR ''/''), TNum ''2'' 2, TSym (CHR '')''), TSym (CHR '',''), TSp, TNum ''2'' 2, TSym (CHR ''*''), TId ''pow'', TSym (CHR ''('')] @ t @ [TSym (CHR ''/'')] @ duration @ [TSym (CHR '',''), TNum ''2'' 2, TSym (CHR '')''), TSym (CHR '',''), TSp, TNum ''1'' 1, TSym (CHR ''-''), TNum ''2'' 2, TSym (CHR ''*''), TId ''pow'', TSym (CHR ''(''), TNum ''1'' 1, TSym (CHR ''-'')] @ t @ [TSym (CHR ''/'')] @ duration @ [TSym (CHR '',''), TNum ''2'' 2, TSym (CHR '')''), TSym (CHR '')'')]),
      (''bounce'',
        [TId ''if'', TSym (CHR ''(''), TId ''lt'', TSym (CHR ''('')] @ t @ [TSym (CHR '','')] @ duration @ [TSym (CHR ''/''), TNum ''2'' 2, TSym (CHR '')''), TSym (CHR '',''), TSp, TNum ''2'' 2, TSym (CHR ''*''), TId ''pow'', TSym (CHR ''('')] @ t @ [TSym (CHR ''/'')] @ duration @ [TSym (CHR '',''), TNum ''2'' 2, TSym (CHR '')''), TSym (CHR '',''), TSp, TNum ''1'' 1, TSym (CHR ''-''), TNum ''2'' 2, TSym (CHR ''*''), TId ''pow'', TSym (CHR ''(''), TNum ''1'' 1, TSym (CHR ''-'')] @ t @ [TSym (CHR ''/'')] @ duration @ [TSym (CHR '',''), TNum ''2'' 2, TSym (CHR '')''), TSym (CHR '')''), TSym (CHR ''*''), TId ''abs'', TSym (CHR ''(''), TId ''sin'', TSym (CHR ''(''), TNum ''10'' 10, TSym (CHR ''*'')] @ t @ [TSym (CHR ''/'')] @ duration @ [TSym (CHR '')''), TSym (CHR '')'')]),
      (''elastic'',
        [TNum ''1'' 1, TSym (CHR ''-''), TId ''cos'', TSym (CHR ''(''), TNum ''20'' 20, TSym (CHR ''*'')] @ t @ [TSym (CHR ''/'')] @ duration @ [TSym (CHR '')''), TSym (CHR ''*''), TId ''exp'', TSym (CHR ''(''), TSym (CHR ''-''), TNum ''5'' 5, TSym (CHR ''*'')] @ t @ [TSym (CHR ''/'')] @ duration @ [TSym (CHR '')'')]),
      (''back'',
        [TId ''pow'', TSym (CHR ''('')] @ t @ [TSym (CHR ''/'')] @ duration @ [TSym (CHR '',''), TNum ''2'' 2, TSym (CHR '')''), TSym (CHR ''*''), TSym (CHR ''(''), TNum ''2.70158'' (270158 / 100000), TSym (CHR ''*''), TSym (CHR ''('')] @ t @ [TSym (CHR ''/'')] @ duration @ [TSym (CHR '')''), TSym (CHR ''-''), TNum ''1.70158'' (170158 / 100000), TSym (CHR '')'')])]"

definition get_easing_expression :: "string \<Rightarrow> tok list \<Rightarrow> tok list \<Rightarrow> tok list" where
  "get_easing_expression easing t duration =
     (case map_of (easing_map t duration) easing of
        Some expr \<Rightarrow> expr
      | None \<Rightarrow> the (map_of (easing_map t duration) ''ease''))"

text \<open>
  The scale expressions of the zoom-in and zoom-out effects (lines 73 to 75 and 89 to 91 of
  \<^verbatim>\<open>generate_ken_burns_filter\<close>): the start scale, the end scale and the easing text are
  spliced into one text. \<open>intensity_factor\<close> is \<^verbatim>\<open>intensity / 100.0\<close>.
\<close>

definition zoom_in_scale_expr :: "(real \<Rightarrow> string) \<Rightarrow> real \<Rightarrow> tok list \<Rightarrow> tok list" where
  "zoom_in_scale_expr fs intensity_factor easing_expr =
     (let start_scale = 1 + intensity_factor * (3 / 10);
          end_scale = 1
      in [num fs start_scale] @ [TSym (CHR ''-''), TSym (CHR ''('')] @ [num fs start_scale] @ [TSym (CHR ''-'')] @ [num fs end_scale] @ [TSym (CHR '')''), TSym (CHR ''*'')] @ easing_expr)"

definition zoom_out_scale_expr :: "(real \<Rightarrow> string) \<Rightarrow> real \<Rightarrow> tok list \<Rightarrow> tok list" where
  "zoom_out_scale_expr fs intensity_factor easing_expr =
     (let start_scale = 1;
          end_scale = 1 + intensity_factor * (3 / 10)
      in [num fs start_scale] @ [TSym (CHR ''+''), TSym (CHR ''('')] @ [num fs end_scale] @ [TSym (CHR ''-'')] @ [num fs start_scale] @ [TSym (CHR '')''), TSym (CHR ''*'')] @ easing_expr)"

text \<open>
  \<^verbatim>\<open>generate_ken_burns_filter\<close>. The frame count \<^verbatim>\<open>int(duration * fps)\<close> is written into
  the easing text as an integer, which the transcoder reads back as that number.
\<close>

definition generate_ken_burns_filter ::
  "(real \<Rightarrow> string) \<Rightarrow> (string \<rightharpoonup> bool) \<Rightarrow> string \<Rightarrow> real \<Rightarrow> int \<Rightarrow> int \<times> int \<Rightarrow> string \<Rightarrow> real
     \<Rightarrow> string" where
  "generate_ken_burns_filter fs available_filters effect duration intensity res easing smooth_factor =
     (if \<not> dict_get available_filters ''zoompan'' True then ''''
      else
        let w = fst res; h = snd res;
            fps = (60 :: int);
            total_frames = py_int (duration * real_of_int fps);
            intensity_factor = real_of_int intensity / 100;
            easing_expr = get_easing_expression easing [TId ''on'']
                            [TNum (str_int total_frames) (real_of_int total_frames)]
        in
        if effect = ''zoomIn'' then
          (let scale_expr = render (zoom_in_scale_expr fs intensity_factor easing_expr);
               filter_parts =
                 [''scale='' @ str_int (w * 2) @ '':'' @ str_int (h * 2) @ '':flags=lanczos'',
                  ''zoompan=z='' @ sq @ scale_expr @ sq @ '':d='' @ str_int total_frames @ '':x='' @ sq @ ''(iw-ow)/2'' @ sq @ '':y='' @ sq @ ''(ih-oh)/2'' @ sq @ '':s='' @ str_int w @ ''x'' @ str_int h @ '':fps='' @ str_int fps]
           in join '','' (if dict_get available_filters ''minterpolate'' False
                          then filter_parts @ [''minterpolate=fps='' @ str_int fps @ '':mi_mode=mci:mc_mode=aobmc:me_mode=bidir'']
                          else filter_parts))
        else if effect = ''zoomOut'' then
          (let scale_expr = render (zoom_out_scale_expr fs intensity_factor easing_expr);
               filter_parts =
                 [''scale='' @ str_int (w * 2) @ '':'' @ str_int (h * 2) @ '':flags=lanczos'',
                  ''zoompan=z='' @ sq @ scale_expr @ sq @ '':d='' @ str_int total_frames @ '':x='' @ sq @ ''(iw-ow)/2'' @ sq @ '':y='' @ sq @ ''(ih-oh)/2'' @ sq @ '':s='' @ str_int w @ ''x'' @ str_int h @ '':fps='' @ str_int fps]
           in join '','' (if dict_get available_filters ''minterpolate'' False
                          then filter_parts @ [''minterpolate=fps='' @ str_int fps @ '':mi_mode=mci'']
                          else filter_parts))
        else if effect = ''panLeft'' then
          (let zoom = 12 / 10 + intensity_factor * (2 / 10);
               pan_distance = intensity_factor * (3 / 10);
               x_expr = ''(iw-ow)*'' @ fs pan_distance @ ''*(1-'' @ render easing_expr @ '')''
           in ''scale='' @ str_int (w * 2) @ '':'' @ str_int (h * 2) @ '':flags=lanczos,zoompan=z='' @ sq @ fs zoom @ sq @ '':d='' @ str_int total_frames @ '':x='' @ sq @ x_expr @ sq @ '':y='' @ sq @ ''(ih-oh)/2'' @ sq @ '':s='' @ str_int w @ ''x'' @ str_int h @ '':fps='' @ str_int fps)
        else if effect = ''panRight'' then
          (let zoom = 12 / 10 + intensity_factor * (2 / 10);
               pan_distance = intensity_factor * (3 / 10);
               x_expr = ''(iw-ow)*'' @ fs pan_distance @ ''*'' @ render easing_expr
           in ''scale='' @ str_int (w * 2) @ '':'' @ str_int (h * 2) @ '':flags=lanczos,zoompan=z='' @ sq @ fs zoom @ sq @ '':d='' @ str_int total_frames @ '':x='' @ sq @ x_expr @ sq @ '':y='' @ sq @ ''(ih-oh)/2'' @ sq @ '':s='' @ str_int w @ ''x'' @ str_int h @ '':fps='' @ str_int fps)
        else if effect = ''rotate'' then
          (let angle = intensity_factor * 15;
               rotate_expr = fs angle @ ''*sin(2*PI*'' @ render easing_expr @ '')'';
               zoom = (13 / 10 :: real)
           in if dict_get available_filters ''rotate'' True
              then ''scale='' @ str_int (w * 2) @ '':'' @ str_int (h * 2) @ '':flags=lanczos,rotate='' @ rotate_expr @ ''*PI/180:c=none:ow=rotw(iw):oh=roth(ih),scale='' @ str_int w @ '':'' @ str_int h @ '':force_original_aspect_ratio=increase:flags=lanczos,crop='' @ str_int w @ '':'' @ str_int h
              else ''scale='' @ str_int (w * 2) @ '':'' @ str_int (h * 2) @ '':flags=lanczos,zoompan=z='' @ sq @ fs zoom @ sq @ '':d='' @ str_int total_frames @ '':x='' @ sq @ ''(iw-ow)/2'' @ sq @ '':y='' @ sq @ ''(ih-oh)/2'' @ sq @ '':s='' @ str_int w @ ''x'' @ str_int h @ '':fps='' @ str_int fps)
        else if effect = ''diagonal'' then
          (let zoom = 13 / 10 + intensity_factor * (2 / 10);
               pan_amount = intensity_factor * (2 / 10);
               x_expr = ''(iw-ow)*'' @ fs pan_amount @ ''*'' @ render easing_expr;
               y_expr = ''(ih-oh)*'' @ fs pan_amount @ ''*'' @ render easing_expr
           in ''scale='' @ str_int (w * 2) @ '':'' @ str_int (h * 2) @ '':flags=lanczos,zoompan=z='' @ sq @ fs zoom @ sq @ '':d='' @ str_int total_frames @ '':x='' @ sq @ x_expr @ sq @ '':y='' @ sq @ y_expr @ sq @ '':s='' @ str_int w @ ''x'' @ str_int h @ '':fps='' @ str_int fps)
        else if effect = ''zoomRotate'' then
          (let scale_expr = render (zoom_out_scale_expr fs intensity_factor easing_expr);
               angle = intensity_factor * 10;
               rotate_expr = fs angle @ ''*'' @ render easing_expr;
               filter_parts =
                 [''scale='' @ str_int (w * 2) @ '':'' @ str_int (h * 2) @ '':flags=lanczos'',
                  ''zoompan=z='' @ sq @ scale_expr @ sq @ '':d='' @ str_int total_frames @ '':x='' @ sq @ ''(iw-ow)/2'' @ sq @ '':y='' @ sq @ ''(ih-oh)/2'' @ sq @ '':s='' @ str_int w @ ''x'' @ str_int h @ '':fps='' @ str_int fps]
           in join '','' (if dict_get available_filters ''rotate'' True
                          then filter_parts @ [''rotate='' @ rotate_expr @ ''*PI/180:c=none'']
                          else filter_parts))
        else if effect = ''parallax'' then
          (let zoom = (14 / 10 :: real);
               x_expr = ''(iw-ow)/2+sin(2*PI*'' @ render easing_expr @ '')*'' @ fs (intensity_factor * 50);
               y_expr = ''(ih-oh)/2+cos(2*PI*'' @ render easing_expr @ '')*'' @ fs (intensity_factor * 30)
           in ''scale='' @ str_int (w * 2) @ '':'' @ str_int (h * 2) @ '':flags=lanczos,zoompan=z='' @ sq @ fs zoom @ sq @ '':d='' @ str_int total_frames @ '':x='' @ sq @ x_expr @ sq @ '':y='' @ sq @ y_expr @ sq @ '':s='' @ str_int w @ ''x'' @ str_int h @ '':fps='' @ str_int fps)
        else '''')"

text \<open>\<^verbatim>\<open>generate_capcut_filter\<close>.\<close>

definition generate_capcut_filter ::
  "(real \<Rightarrow> string) \<Rightarrow> (string \<rightharpoonup> bool) \<Rightarrow> string \<Rightarrow> real \<Rightarrow> effect_settings \<Rightarrow> nat \<Rightarrow> string" where
  "generate_capcut_filter fs available_filters effect duration s clip_index =
     (if effect = ''zoomBurst'' then
        (let start_scale = real_of_int (zoom_burst_start s) / 100;
             decay_time = real_of_int (zoom_burst_decay s) / 100 * duration;
             scale_expr = ''if(lt(t,'' @ fs decay_time @ ''),'' @ fs start_scale @ ''*exp(-3*t/'' @ fs decay_time @ '')+1*(1-exp(-3*t/'' @ fs decay_time @ '')),1)''
         in ''scale=w='' @ sq @ ''iw*('' @ scale_expr @ '')'' @ sq @ '':h='' @ sq @ ''ih*('' @ scale_expr @ '')'' @ sq @ '':eval=frame:flags=lanczos'')
      else if effect = ''pulse'' then
        (let amplitude = real_of_int (scale_amplitude s) / 100 * (1 / 10);
             frequency = (25 / 10 :: real);
             scale_expr = ''1+'' @ fs amplitude @ ''*sin(2*PI*t*'' @ fs frequency @ ''/'' @ fs duration @ '')''
         in ''scale=w='' @ sq @ ''iw*('' @ scale_expr @ '')'' @ sq @ '':h='' @ sq @ ''ih*('' @ scale_expr @ '')'' @ sq @ '':eval=frame:flags=lanczos'')
      else if effect = ''bounce'' then
        (let amplitude = real_of_int (scale_amplitude s) / 100 * (15 / 100);
             scale_expr = ''1+'' @ fs amplitude @ ''*sin(10*PI*t/'' @ fs duration @ '')*exp(-5*t/'' @ fs duration @ '')''
         in ''scale=w='' @ sq @ ''iw*('' @ scale_expr @ '')'' @ sq @ '':h='' @ sq @ ''ih*('' @ scale_expr @ '')'' @ sq @ '':eval=frame:flags=lanczos'')
      else if effect = ''shake'' then
        (let intensity = real_of_int (motion_intensity s) / 100 * 10;
             x_shake = fs intensity @ ''*sin(t*50+'' @ str_nat clip_index @ '')'';
             y_shake = fs intensity @ ''*cos(t*37+'' @ str_nat (clip_index * 2) @ '')''
         in ''crop=w=iw-'' @ fs (intensity * 2) @ '':h=ih-'' @ fs (intensity * 2) @ '':x='' @ sq @ fs intensity @ ''+'' @ x_shake @ sq @ '':y='' @ sq @ fs intensity @ ''+'' @ y_shake @ sq @ '':eval=frame'')
      else if effect = ''glitch'' then
        (let intensity = real_of_int (motion_intensity s) / 100
         in if dict_get available_filters ''split'' True \<and> dict_get available_filters ''blend'' True
            then ''split[main][glitch];[glitch]crop=w=iw:h=ih/3:x=0:y=ih/3,setpts=PTS+'' @ fs (intensity * (1 / 10)) @ ''[g1];[main][g1]overlay=x='' @ fs (intensity * 5) @ ''*sin(t*10):y=H/3:enable='' @ sq @ ''mod(t,0.5)'' @ sq
            else ''eq=brightness='' @ fs (1 + intensity * (1 / 10)) @ ''*sin(t*20):eval=frame'')
      else if effect = ''chromatic'' then
        (let intensity = real_of_int (motion_intensity s) / 100 * 5
         in if dict_get available_filters ''split'' True \<and>
               dict_get available_filters ''colorchannelmixer'' True
            then ''split=3[r][g][b];[r]colorchannelmixer=1:0:0:0:0:0:0:0:0:0:0:0[red];[g]colorchannelmixer=0:0:0:0:1:0:0:0:0:0:0:0[green];[b]colorchannelmixer=0:0:0:0:0:0:0:0:1:0:0:0[blue];[red]setpts=PTS-'' @ fs (intensity * (1 / 100)) @ ''/TB[r1];[blue]setpts=PTS+'' @ fs (intensity * (1 / 100)) @ ''/TB[b1];[r1][green]blend=all_mode=screen[rg];[rg][b1]blend=all_mode=screen''
            else ''eq=saturation=1+'' @ fs (intensity * (1 / 10)) @ ''*sin(t*5):eval=frame'')
      else if effect = ''zoomBlur'' then
        (let intensity = real_of_int (motion_intensity s) / 100;
             zoom_expr = ''1+0.1*sin(2*PI*t/'' @ fs duration @ '')''
         in if dict_get available_filters ''gblur'' False
            then ''scale=w='' @ sq @ ''iw*('' @ zoom_expr @ '')'' @ sq @ '':h='' @ sq @ ''ih*('' @ zoom_expr @ '')'' @ sq @ '':eval=frame,gblur=sigma='' @ fs (intensity * 5) @ ''*abs(sin(2*PI*t/'' @ fs duration @ '')):steps=1''
            else ''scale=w='' @ sq @ ''iw*('' @ zoom_expr @ '')'' @ sq @ '':h='' @ sq @ ''ih*('' @ zoom_expr @ '')'' @ sq @ '':eval=frame'')
      else if effect = ''wobble'' then
        (let amplitude = real_of_int (motion_intensity s) / 100 * (5 / 100);
             wobble_expr = ''1+'' @ fs amplitude @ ''*sin(4*PI*t/'' @ fs duration @ '')*cos(2*PI*t/'' @ fs duration @ '')''
         in ''scale=w='' @ sq @ ''iw*('' @ wobble_expr @ '')'' @ sq @ '':h='' @ sq @ ''ih'' @ sq @ '':eval=frame'')
      else if effect = ''spin'' then
        (if dict_get available_filters ''rotate'' True
         then (let speed = real_of_int (motion_intensity s) / 100 * 360
               in ''rotate=a='' @ fs speed @ ''*t*PI/180:c=none:ow=rotw(iw):oh=roth(ih)'')
         else '''')
      else '''')"

text \<open>\<^verbatim>\<open>generate_color_correction_filter\<close>.\<close>

definition color_filters :: "(string \<times> string) list" where
  "color_filters =
     [(''warm'', ''colorbalance=rs=0.3:gs=0.1:bs=-0.2''),
      (''cold'', ''colorbalance=rs=-0.2:gs=-0.1:bs=0.3''),
      (''vintage'', ''curves=preset=vintage,colorbalance=rs=0.3:gs=-0.1:bs=-0.2''),
      (''blackwhite'', ''hue=s=0''),
      (''sepia'', ''colorchannelmixer=.393:.769:.189:0:.349:.686:.168:0:.272:.534:.131''),
      (''cinematic'', ''curves=preset=darker,colorbalance=rs=0.2:bs=-0.1''),
      (''vibrant'', ''eq=saturation=1.5:contrast=1.2''),
      (''faded'', ''eq=saturation=0.7:contrast=0.9''),
      (''instagram'', ''curves=preset=lighter,eq=saturation=1.2''),
      (''film'', ''curves=preset=vintage'')]"

definition generate_color_correction_filter ::
  "(real \<Rightarrow> string) \<Rightarrow> (string \<rightharpoonup> bool) \<Rightarrow> effect_settings \<Rightarrow> string" where
  "generate_color_correction_filter fs available_filters s =
     (let f1 =
            (case map_of color_filters (color_filter s) of
               None \<Rightarrow> []
             | Some filter_cmd \<Rightarrow>
                 (let filter_cmd =
                        (if sublist ''colorbalance'' filter_cmd \<and>
                            \<not> dict_get available_filters ''colorbalance'' True
                         then (if color_filter s = ''warm''
                               then ''eq=saturation=1.2:gamma_r=1.1:gamma_b=0.9''
                               else if color_filter s = ''cold''
                               then ''eq=saturation=0.9:gamma_r=0.9:gamma_b=1.1''
                               else filter_cmd)
                         else filter_cmd);
                      filter_cmd =
                        (if sublist ''curves'' filter_cmd \<and>
                            \<not> dict_get available_filters ''curves'' True
                         then (if color_filter s = ''vintage''
                               then ''eq=saturation=0.8:contrast=0.9:brightness=0.05''
                               else if color_filter s = ''cinematic''
                               then ''eq=contrast=1.1:brightness=-0.05''
                               else filter_cmd)
                         else filter_cmd)
                  in [filter_cmd]));
          f2 =
            (if vignette s \<and> dict_get available_filters ''vignette'' True
             then f1 @ [''vignette=angle=PI/4*'' @ fs (real_of_int (vignette_intensity s) / 100) @ '':mode=backward'']
             else if vignette s
             then f1 @ [''boxblur=20:20,format=gray,geq='' @ sq @ ''lum(X,Y)*(1-hypot(2*(X/W-0.5),2*(Y/H-0.5)))'' @ sq]
             else f1);
          f3 =
            (if grain s \<and> dict_get available_filters ''noise'' True
             then f2 @ [''noise=alls='' @ str_int (grain_intensity s) @ '':allf=t'']
             else f2);
          f4 =
            (if blur_edges s \<and> dict_get available_filters ''gblur'' True
             then f3 @ [''gblur=sigma='' @ fs (real_of_int (blur_intensity s) / 100 * 20) @ '':steps=1'']
             else f3)
      in if f4 \<noteq> [] then join '','' f4 else '''')"

text \<open>\<^verbatim>\<open>generate_overlay_filter\<close>.\<close>

definition generate_overlay_filter ::
  "(real \<Rightarrow> string) \<Rightarrow> (string \<rightharpoonup> bool) \<Rightarrow> overlay_settings \<Rightarrow> real \<Rightarrow> string" where
  "generate_overlay_filter fs available_filters ov duration =
     (if \<not> enabled ov \<or> overlay_files ov = [] then ''''
      else
        let position0 =
              dict_get
                (map_of [(''center'', ''x=(W-w)/2:y=(H-h)/2''), (''top-left'', ''x=0:y=0''),
                         (''top-right'', ''x=W-w:y=0''), (''bottom-left'', ''x=0:y=H-h''),
                         (''bottom-right'', ''x=W-w:y=H-h'')])
                (position ov) ''x=(W-w)/2:y=(H-h)/2'';
            blend =
              dict_get
                (map_of [(''normal'', ''''), (''screen'', '':blend=screen''),
                         (''overlay'', '':blend=overlay''), (''multiply'', '':blend=multiply''),
                         (''add'', '':blend=addition''), (''lighten'', '':blend=lighten''),
                         (''darken'', '':blend=darken'')])
                (blend_mode ov) '''';
            f1 = (if scale ov \<noteq> 100
                  then [''scale=iw*'' @ fs (real_of_int (scale ov) / 100) @ '':ih*'' @ fs (real_of_int (scale ov) / 100)]
                  else []);
            f2 = (if rotation ov \<noteq> 0 \<and> dict_get available_filters ''rotate'' True
                  then f1 @ [''rotate='' @ str_int (rotation ov) @ ''*PI/180:c=none'']
                  else f1);
            f3 = (if dict_get available_filters ''format'' True
                  then f2 @ [''format=rgba,colorchannelmixer=aa='' @ fs (real_of_int (opacity ov) / 100)]
                  else f2);
            f4 = (if animate ov \<and> animation_type ov = ''fade''
                  then f3 @ [''fade=in:st=0:d=1:alpha=1'']
                  else if animate ov \<and> animation_type ov \<noteq> ''slide'' \<and> animation_type ov = ''zoom''
                  then f3 @ [''scale=w='' @ sq @ ''iw*(1+0.1*sin(t))'' @ sq @ '':h='' @ sq @ ''ih*(1+0.1*sin(t))'' @ sq @ '':eval=frame'']
                  else f3);
            position1 = (if animate ov \<and> animation_type ov \<noteq> ''fade'' \<and> animation_type ov = ''slide''
                  then position0 @ '':x='' @ sq @ ''if(lt(t,2),W-w*t/2,x)'' @ sq @ '':eval=frame''
                  else position0);
            overlay_filter = (if f4 \<noteq> [] then join '','' f4 else ''null'')
        in overlay_filter @ ''[ov];[ov]overlay='' @ position1 @ blend)"

text \<open>
  \<^verbatim>\<open>generate_fade_filter\<close>. The start time is the integer \<^verbatim>\<open>0\<close> or a float, and is
  formatted accordingly.
\<close>

datatype pynum = PyInt int | PyFloat real

definition str_num :: "(real \<Rightarrow> string) \<Rightarrow> pynum \<Rightarrow> string" where
  "str_num fs x = (case x of PyInt i \<Rightarrow> str_int i | PyFloat r \<Rightarrow> fs r)"

definition generate_fade_filter :: "(real \<Rightarrow> string) \<Rightarrow> string \<Rightarrow> real \<Rightarrow> pynum \<Rightarrow> string" where
  "generate_fade_filter fs fade_type duration start_time =
     (if fade_type = ''in'' then ''fade=t=in:st='' @ str_num fs start_time @ '':d='' @ fs duration
      else if fade_type = ''out'' then ''fade=t=out:st='' @ str_num fs start_time @ '':d='' @ fs duration
      else '''')"

text \<open>
  \<^verbatim>\<open>generate_audio_filter\<close>. It does not read \<^verbatim>\<open>available_filters\<close>: each capability it
  needs is asked of \<^verbatim>\<open>FFmpegUtils.check_filter_available\<close>, which launches the transcoder.
  The right operand of \<^verbatim>\<open>and\<close> is evaluated only when the left one holds.
\<close>

definition effect_filters :: "(string \<times> string) list" where
  "effect_filters =
     [(''bass'', ''bass=g=10:f=100''),
      (''reverb'', ''aecho=0.8:0.9:40:0.4''),
      (''echo'', ''aecho=0.8:0.7:60:0.5''),
      (''chorus'', ''chorus=0.5:0.9:50|60|40:0.4|0.32|0.3:0.25|0.4|0.3:2|2.3|1.3''),
      (''telephone'', ''highpass=f=300,lowpass=f=3000''),
      (''underwater'', ''lowpass=f=500,aecho=0.8:0.9:1000:0.3''),
      (''radio'', ''highpass=f=300,lowpass=f=3000,aecho=0.8:0.7:40:0.25''),
      (''vintage'', ''lowpass=f=8000,aecho=0.6:0.8:60:0.35''),
      (''distortion'', ''acompressor=threshold=0.5:ratio=5:attack=10''),
      (''robot'', ''afftfilt=real='' @ sq @ ''re * (1-clip((b/nb)*b,0,1))'' @ sq @ '':imag='' @ sq @ ''im * (1-clip((b/nb)*b,0,1))'' @ sq)]"

definition audio_pitch_filters :: "env \<Rightarrow> effect_settings \<Rightarrow> world \<Rightarrow> string list \<times> world" where
  "audio_pitch_filters e s w =
     (if audio_pitch s \<noteq> ''0'' then
        (case pyfloat e (audio_pitch s) of
           None \<Rightarrow> ([], w)
         | Some semitones \<Rightarrow>
             (let (b, w') = check_filter_available e ''rubberband'' w
              in if b then ([''rubberband=pitch='' @ fstr e semitones], w')
                 else ([''asetrate=44100*'' @ fstr e (2 powr (semitones / 12)) @ '',aresample=44100''], w')))
      else ([], w))"

definition audio_effect_filters :: "env \<Rightarrow> effect_settings \<Rightarrow> world \<Rightarrow> string list \<times> world" where
  "audio_effect_filters e s w =
     (case map_of effect_filters (audio_effect s) of
        None \<Rightarrow> ([], w)
      | Some effect_filter \<Rightarrow>
          (if sublist ''afftfilt'' effect_filter then
             (let (b, w') = check_filter_available e ''afftfilt'' w
              in if \<not> b then ([''aecho=0.8:0.8:5:0.7,aecho=0.8:0.8:11:0.5''], w')
                 else ([effect_filter], w'))
           else ([effect_filter], w)))"

definition audio_stereo_filters :: "env \<Rightarrow> effect_settings \<Rightarrow> world \<Rightarrow> string list \<times> world" where
  "audio_stereo_filters e s w =
     (if audio_stereo_enhance s then
        (let (b, w') = check_filter_available e ''stereotools'' w
         in if b then ([''stereotools=slev=1.5:sbal=0''], w') else ([], w'))
      else ([], w))"

definition audio_normalize_filters :: "env \<Rightarrow> effect_settings \<Rightarrow> world \<Rightarrow> string list \<times> world" where
  "audio_normalize_filters e s w =
     (if audio_normalize s then
        (let (b, w') = check_filter_available e ''loudnorm'' w
         in if b then ([''loudnorm=I=-16:TP=-1.5:LRA=11''], w') else ([''volume=0.9''], w'))
      else ([], w))"

definition generate_audio_filter :: "env \<Rightarrow> effect_settings \<Rightarrow> world \<Rightarrow> string \<times> world" where
  "generate_audio_filter e s w =
     (let (f1, w1) = audio_pitch_filters e s w;
          (f2, w2) = audio_effect_filters e s w1;
          (f3, w3) = audio_stereo_filters e s w2;
          f4 = (if audio_compressor s
                then [''acompressor=threshold=0.1:ratio=4:attack=5:release=50''] else []);
          f5 = (if audio_limiter s then [''alimiter=limit=0.95:attack=5:release=50''] else []);
          (f6, w4) = audio_normalize_filters e s w3;
          filters = f1 @ f2 @ f3 @ f4 @ f5 @ f6
      in (if filters \<noteq> [] then join '','' filters else ''anull'', w4))"

text \<open>\<^verbatim>\<open>get_codec_params\<close>.\<close>

definition get_codec_params :: "export_settings \<Rightarrow> (string \<rightharpoonup> bool) \<Rightarrow> bool \<Rightarrow> string list" where
  "get_codec_params x gpu_support include_audio =
     (let q = quality x;
          cpu = [''-c:v'', ''libx264'', ''-preset'', preset q, ''-crf'', str_int (crf q)];
          p1 =
            (if use_gpu x \<and> gpu_type x = ''auto'' then
               (if dict_get gpu_support ''nvidia'' False then
                  [''-c:v'', ''h264_nvenc'', ''-preset'', ''p4'', ''-tune'', ''hq'',
                   ''-rc'', ''vbr'', ''-cq'', str_int (crf q)]
                else if dict_get gpu_support ''amd'' False then
                  [''-c:v'', ''h264_amf'', ''-quality'', ''balanced'',
                   ''-rc'', ''cqp'', ''-qp_i'', str_int (crf q)]
                else if dict_get gpu_support ''intel'' False then
                  [''-c:v'', ''h264_qsv'', ''-preset'', ''medium'',
                   ''-global_quality'', str_int (crf q)]
                else cpu)
             else cpu);
          p2 = p1 @ [''-b:v'', str_int (bitrate x) @ ''M'',
                     ''-maxrate'', str_int (bitrate x + 2) @ ''M'',
                     ''-bufsize'', str_int (bitrate x * 2) @ ''M''];
          p3 = (if codec x = ''h264'' \<and> \<not> sublist ''nvenc'' (join '' '' p2)
                then p2 @ [''-profile:v'', profile q, ''-level'', level q] else p2);
          p4 = p3 @ [''-pix_fmt'', pixel_format q];
          p5 = (if color_space q \<noteq> [] then p4 @ [''-colorspace'', color_space q] else p4);
          p6 = (if color_range q \<noteq> [] then p5 @ [''-color_range'', color_range q] else p5)
      in if include_audio
         then p6 @ [''-c:a'', audio_codec x, ''-b:a'', str_int (audio_bitrate x) @ ''k'']
         else p6)"

subsection \<open>Concrete filter inputs\<close>

text \<open>The capability set of a transcoder whose probe finds no filter at all.\<close>

definition all_false_filters :: "string \<rightharpoonup> bool" where
  "all_false_filters = map_of (map (\<lambda>n. (n, False)) filters_to_check)"

text \<open>A formatter that agrees with Python's on the few floats of the examples.\<close>

definition fstr_example :: "real \<Rightarrow> string" where
  "fstr_example x =
     (if x = 1 then ''1.0'' else if x = 109 / 100 then ''1.09'' else if x = 10 then ''10.0''
      else if x = 5 then ''5.0'' else ''0.0'')"

text \<open>The variables of the zoom expression at the first frame.\<close>

definition first_frame :: "string \<Rightarrow> real option" where
  "first_frame x = (if x = ''on'' then Some 0 else None)"

text \<open>The variables of the zoom expression at frame \<open>n\<close>: the frame counter \<open>on\<close>.\<close>

definition frame :: "real \<Rightarrow> string \<Rightarrow> real option" where
  "frame n x = (if x = ''on'' then Some n else None)"

text \<open>The easing text of a clip of \<open>n\<close> frames, as \<^verbatim>\<open>generate_ken_burns_filter\<close> asks for it.\<close>

definition clip_easing :: "string \<Rightarrow> int \<Rightarrow> tok list" where
  "clip_easing easing n =
     get_easing_expression easing [TId ''on''] [TNum (str_int n) (real_of_int n)]"

subsection \<open>Counting probes\<close>

text \<open>
  The number of capabilities one call of \<^verbatim>\<open>generate_audio_filter\<close> asks for: rubberband when
  the pitch is not \<^verbatim>\<open>"0"\<close> and reads as a float, afftfilt for the robot effect, stereotools
  when stereo enhancement is on, loudnorm when normalisation is on.
\<close>

definition audio_probe_count :: "env \<Rightarrow> effect_settings \<Rightarrow> nat" where
  "audio_probe_count e s =
     (if audio_pitch s \<noteq> ''0'' \<and> pyfloat e (audio_pitch s) \<noteq> None then 1 else 0) +
     (if audio_effect s = ''robot'' then 1 else 0) +
     (if audio_stereo_enhance s then 1 else 0) +
     (if audio_normalize s then 1 else 0)"

text \<open>
  The shape of the document the prober prints: an object whose \<open>format\<close>, when present, is
  an object and whose \<open>streams\<close>, when present, is a list of objects.
\<close>

definition is_obj :: "json \<Rightarrow> bool" where
  "is_obj j = (case j of JObj kvs \<Rightarrow> True | _ \<Rightarrow> False)"

definition ffprobe_shaped :: "json \<Rightarrow> bool" where
  "ffprobe_shaped info =
     (case info of
        JObj kvs \<Rightarrow>
          (case map_of kvs ''format'' of None \<Rightarrow> True | Some f \<Rightarrow> is_obj f) \<and>
          (case map_of kvs ''streams'' of
             None \<Rightarrow> True
           | Some ss \<Rightarrow> (case ss of JArr xs \<Rightarrow> list_all is_obj xs | _ \<Rightarrow> False))
      | _ \<Rightarrow> False)"

text \<open>The fallback launch of \<^verbatim>\<open>get_duration\<close> finds no \<^verbatim>\<open>Duration:\<close> pattern, or raises.\<close>

definition no_duration_in_stderr :: "env \<Rightarrow> string \<Rightarrow> world \<Rightarrow> bool" where
  "no_duration_in_stderr e file_path w =
     (case tool e [ffmpeg e, ''-i'', file_path, ''-f'', ''null'', ''-''] w of
        Exited rc so se wr \<Rightarrow> re_search_duration se = None
      | Raised \<Rightarrow> True)"

subsection \<open>Concrete environments\<close>

text \<open>An oracle under which every launch succeeds and writes its output, and one under which every launch raises.\<close>

definition tool_ok :: "string list \<Rightarrow> world \<Rightarrow> outcome" where
  "tool_ok cmd w = Exited 0 [] [] True"

definition tool_raises :: "string list \<Rightarrow> world \<Rightarrow> outcome" where
  "tool_raises cmd w = Raised"

definition no_float :: "string \<Rightarrow> real option" where
  "no_float s = None"

definition no_json :: "string \<Rightarrow> json option" where
  "no_json s = None"

definition env_ok :: env where
  "env_ok = \<lparr>fstr = fstr_example, pyfloat = no_float, json_loads = no_json,
             ffmpeg = ''ffmpeg'', ffprobe = ''ffprobe'', tool = tool_ok, draws = rng_zero\<rparr>"

definition env_raises :: env where
  "env_raises = \<lparr>fstr = fstr_example, pyfloat = no_float, json_loads = no_json,
             ffmpeg = ''ffmpeg'', ffprobe = ''ffprobe'', tool = tool_raises, draws = rng_zero\<rparr>"

definition empty_world :: world where
  "empty_world = \<lparr>files = {}, launched = [], rng_pos = 0\<rparr>"

section \<open>Verified properties\<close>

subsection \<open>Effect selection\<close>

lemma upt_10: "[0..<10] = [0, 1, 2, 3, 4, 5, 6, 7, 8, 9 :: nat]"
  by code_simp

lemma should_apply_capcut_every_eq:
  assumes "effect_frequency s = ''every''" and "1 \<le> effect_every s"
  shows "should_apply_capcut g s i p = Some ((int i + 1) mod effect_every s = 0, p)"
  using assms by (simp add: should_apply_capcut_def)

lemma should_apply_capcut_every3:
  assumes "effect_frequency s = ''every''" and "effect_every s = 3"
  shows "filter (\<lambda>i. should_apply_capcut g s i p = Some (True, p)) [0..<10] = [2, 5, 8]"
  using assms by (simp add: should_apply_capcut_def upt_10)

lemma select_capcut_every:
  assumes "effect_frequency s = ''every''" and "1 \<le> effect_every s"
    and "capcut_effects s \<noteq> []"
    and "capcut_timing s \<in> {''start'', ''middle'', ''end'', ''random''}"
  shows "\<exists>st en p'. select_capcut g s i p = Some (st, en, p') \<and>
          (st \<noteq> None \<or> en \<noteq> None) = ((int i + 1) mod effect_every s = 0)"
proof -
  have ne: "capcut_effects s @ motion_effects s \<noteq> []" using assms(3) by simp
  show ?thesis
  proof (cases "(int i + 1) mod effect_every s = 0")
    case False
    then show ?thesis
      using assms by (simp add: select_capcut_def should_apply_capcut_every_eq)
  next
    case True
    then show ?thesis using assms(3,4) ne
      by (auto simp add: select_capcut_def should_apply_capcut_every_eq[OF assms(1,2)]
          random_choice_def Let_def)
  qed
qed

text \<open>
  Claim C9. Under the frequency policy \<open>every\<close> with \<open>k \<ge> 1\<close>, the application predicate
  holds for the 0-based clip index \<open>i\<close> exactly when \<open>(i + 1) mod k = 0\<close> and draws no random
  number; for \<open>k = 3\<close> the indices below 10 on which it holds are 2, 5 and 8; and with a
  non-empty effect list and any of the four timings a slot is filled on exactly those clips.
\<close>

theorem every_k_frequency:
  assumes "effect_frequency s = ''every''" and "1 \<le> effect_every s"
  shows "should_apply_capcut g s i p = Some ((int i + 1) mod effect_every s = 0, p) \<and>
         (effect_every s = 3 \<longrightarrow>
            filter (\<lambda>i. should_apply_capcut g s i p = Some (True, p)) [0..<10] = [2, 5, 8]) \<and>
         (capcut_effects s \<noteq> [] \<and> capcut_timing s \<in> {''start'', ''middle'', ''end'', ''random''} \<longrightarrow>
            (\<exists>st en p'. select_capcut g s i p = Some (st, en, p') \<and>
               (st \<noteq> None \<or> en \<noteq> None) = ((int i + 1) mod effect_every s = 0)))"
proof (intro conjI impI)
  show "should_apply_capcut g s i p = Some ((int i + 1) mod effect_every s = 0, p)"
    by (rule should_apply_capcut_every_eq[OF assms])
next
  assume "effect_every s = 3"
  then show "filter (\<lambda>i. should_apply_capcut g s i p = Some (True, p)) [0..<10] = [2, 5, 8]"
    by (rule should_apply_capcut_every3[OF assms(1)])
next
  assume "capcut_effects s \<noteq> [] \<and>
          capcut_timing s \<in> {''start'', ''middle'', ''end'', ''random''}"
  then show "\<exists>st en p'. select_capcut g s i p = Some (st, en, p') \<and>
               (st \<noteq> None \<or> en \<noteq> None) = ((int i + 1) mod effect_every s = 0)"
    using select_capcut_every[OF assms] by blast
qed

theorem every_k_frequency_witness:
  "effect_frequency settings_every3 = ''every'' \<and> 1 \<le> effect_every settings_every3 \<and>
   effect_every settings_every3 = 3 \<and> capcut_effects settings_every3 \<noteq> [] \<and>
   capcut_timing settings_every3 \<in> {''start'', ''middle'', ''end'', ''random''} \<and>
   should_apply_capcut rng_zero settings_every3 2 0 = Some (True, 0) \<and>
   filter (\<lambda>i. should_apply_capcut rng_zero settings_every3 i 0 = Some (True, 0)) [0..<10] = [2, 5, 8]"
proof -
  have h: "effect_frequency settings_every3 = ''every''" "1 \<le> effect_every settings_every3"
    by (simp_all add: settings_every3_def default_effects_def)
  have e: "effect_every settings_every3 = 3" "capcut_effects settings_every3 \<noteq> []"
    "capcut_timing settings_every3 \<in> {''start'', ''middle'', ''end'', ''random''}"
    by (simp_all add: settings_every3_def default_effects_def)
  note t = every_k_frequency[OF h, of rng_zero 2 0]
  have a: "should_apply_capcut rng_zero settings_every3 2 0 = Some (True, 0)"
    using conjunct1[OF t] e(1) by simp
  have b: "filter (\<lambda>i. should_apply_capcut rng_zero settings_every3 i 0 = Some (True, 0)) [0..<10]
             = [2, 5, 8]"
    by (rule mp[OF conjunct1[OF conjunct2[OF t]] e(1)])
  show ?thesis using h e a b by (intro conjI)
qed

lemma select_ken_burns_settings:
  "select_ken_burns g m i p = Some (kb, m', p') \<Longrightarrow> settings m' = settings m"
  by (auto simp add: select_ken_burns_def Let_def random_choice_def split: if_splits)

lemma select_capcut_random:
  assumes "capcut_timing s = ''random''" and "select_capcut g s i p = Some (st, en, p')"
  shows "(st = None \<and> en = None) \<or>
         (\<exists>q. st = Some ((capcut_effects s @ motion_effects s) !
                        (g q mod length (capcut_effects s @ motion_effects s)))
            \<and> en = Some ((capcut_effects s @ motion_effects s) !
                        (g (Suc q) mod length (capcut_effects s @ motion_effects s)))
            \<and> capcut_effects s \<noteq> [] \<and> should_apply_capcut g s i p = Some (True, q)
            \<and> p' = Suc (Suc q))"
  using assms
  by (auto simp add: select_capcut_def Let_def random_choice_def
      split: if_splits option.splits bool.splits)

text \<open>
  Claim C5, as the code has it. With the timing policy \<open>random\<close>, a clip to which a transient
  effect is applied gets an effect in both slots, the start slot and the end slot, each drawn
  on its own from the concatenation of the scale and the motion effect lists.
\<close>

theorem timing_random_fills_both_slots:
  assumes "capcut_timing (settings m) = ''random''"
    and "get_effects_for_clip g m i n p = Some (fx, m', p')"
    and "fx_capcut_start fx \<noteq> None \<or> fx_capcut_end fx \<noteq> None"
  shows "\<exists>a b. fx_capcut_start fx = Some a \<and> fx_capcut_end fx = Some b \<and>
           a \<in> set (capcut_effects (settings m) @ motion_effects (settings m)) \<and>
           b \<in> set (capcut_effects (settings m) @ motion_effects (settings m))"
proof -
  from assms(2) obtain kb p0 st en where
    kb: "select_ken_burns g m i p = Some (kb, m', p0)" and
    cc: "select_capcut g (settings m') i p0 = Some (st, en, p')" and
    fx: "fx = \<lparr>fx_ken_burns = kb, fx_capcut_start = st, fx_capcut_end = en\<rparr>"
    by (auto simp add: get_effects_for_clip_def split: option.splits)
  have s: "settings m' = settings m" using kb by (rule select_ken_burns_settings)
  let ?all = "capcut_effects (settings m) @ motion_effects (settings m)"
  from select_capcut_random[OF _ cc] assms(1) s assms(3) fx
  obtain q where st: "st = Some (?all ! (g q mod length ?all))"
     and en: "en = Some (?all ! (g (Suc q) mod length ?all))"
     and ne: "capcut_effects (settings m) \<noteq> []"
    by auto
  have "?all \<noteq> []" using ne by simp
  then have "?all ! (g q mod length ?all) \<in> set ?all"
    "?all ! (g (Suc q) mod length ?all) \<in> set ?all"
    by (simp_all del: length_append set_append)
  then show ?thesis using st en fx by simp
qed

lemma timing_random_eval:
  "get_effects_for_clip rng_zero (effects_manager_init settings_timing_random) 0 1 0 =
     Some (\<lparr>fx_ken_burns = None, fx_capcut_start = Some ''pulse'', fx_capcut_end = Some ''pulse''\<rparr>,
           effects_manager_init settings_timing_random, 2)"
  by (simp add: get_effects_for_clip_def select_ken_burns_def select_capcut_def
      should_apply_capcut_def random_choice_def effects_manager_init_def
      settings_timing_random_def default_effects_def rng_zero_def)

theorem timing_random_fills_both_slots_witness:
  "capcut_timing (settings (effects_manager_init settings_timing_random)) = ''random'' \<and>
   (\<exists>a b. fx_capcut_start \<lparr>fx_ken_burns = None, fx_capcut_start = Some ''pulse'',
                           fx_capcut_end = Some ''pulse''\<rparr> = Some a \<and>
          fx_capcut_end \<lparr>fx_ken_burns = None, fx_capcut_start = Some ''pulse'',
                         fx_capcut_end = Some ''pulse''\<rparr> = Some b \<and>
          a \<in> set (capcut_effects (settings (effects_manager_init settings_timing_random)) @
                   motion_effects (settings (effects_manager_init settings_timing_random))) \<and>
          b \<in> set (capcut_effects (settings (effects_manager_init settings_timing_random)) @
                   motion_effects (settings (effects_manager_init settings_timing_random))))"
proof -
  have t: "capcut_timing (settings (effects_manager_init settings_timing_random)) = ''random''"
    by (simp add: effects_manager_init_def settings_timing_random_def default_effects_def)
  from timing_random_fills_both_slots[OF t timing_random_eval] t show ?thesis by simp
qed

text \<open>
  Claim C5 as stated fails: with the timing \<open>random\<close> and the single configured effect
  \<open>pulse\<close>, the clip gets the effect in the start slot and in the end slot.
\<close>

theorem timing_random_one_slot_counterexample:
  "capcut_timing settings_timing_random = ''random'' \<and>
   get_effects_for_clip rng_zero (effects_manager_init settings_timing_random) 0 1 0 =
     Some (\<lparr>fx_ken_burns = None, fx_capcut_start = Some ''pulse'', fx_capcut_end = Some ''pulse''\<rparr>,
           effects_manager_init settings_timing_random, 2)"
  by (simp add: get_effects_for_clip_def select_ken_burns_def select_capcut_def
      should_apply_capcut_def random_choice_def effects_manager_init_def
      settings_timing_random_def default_effects_def rng_zero_def)

subsection \<open>Randomised Ken Burns selection\<close>

lemma last_two_length: "length (last_two xs) \<le> 2"
  by (simp add: last_two_def)

lemma filter_last_two_nonempty:
  assumes "3 \<le> card (set kb)"
  shows "filter (\<lambda>e. e \<notin> set (last_two u)) kb \<noteq> []"
proof
  assume "filter (\<lambda>e. e \<notin> set (last_two u)) kb = []"
  then have "set kb \<subseteq> set (last_two u)"
    by (auto simp add: filter_empty_conv)
  then have "card (set kb) \<le> card (set (last_two u))"
    by (simp add: card_mono)
  also have "\<dots> \<le> length (last_two u)" by (rule card_length)
  also have "\<dots> \<le> 2" by (rule last_two_length)
  finally show False using assms by simp
qed

lemma select_ken_burns_random:
  assumes "kb_randomize (settings m)" and "3 \<le> card (set (ken_burns (settings m)))"
      and "select_ken_burns g m i p = Some (r, m', p')"
  shows "\<exists>e. r = Some e \<and> e \<in> set (ken_burns (settings m))
            \<and> e \<notin> set (last_two (used_effects m))
            \<and> m' = m\<lparr>used_effects := used_effects m @ [e]\<rparr>"
proof -
  let ?kb = "ken_burns (settings m)"
  let ?av = "filter (\<lambda>e. e \<notin> set (last_two (used_effects m))) ?kb"
  have ne: "?av \<noteq> []" using assms(2) by (rule filter_last_two_nonempty)
  have kbne: "?kb \<noteq> []" using assms(2) by auto
  have r: "r = Some (?av ! (g p mod length ?av))"
    and m': "m' = m\<lparr>used_effects := used_effects m @ [?av ! (g p mod length ?av)]\<rparr>"
    using assms(1,3) ne kbne by (simp_all add: select_ken_burns_def Let_def random_choice_def)
  have "?av ! (g p mod length ?av) \<in> set ?av" using ne by (simp del: set_filter)
  then show ?thesis using r m' by auto
qed

lemma effects_for_clips_no_repeat:
  assumes "kb_randomize (settings m)" and "3 \<le> card (set (ken_burns (settings m)))"
      and "effects_for_clips g m i n p = Some (fxs, m', p')"
  shows "\<exists>ks. map fx_ken_burns fxs = map Some ks \<and> set ks \<subseteq> set (ken_burns (settings m))
             \<and> no_repeat_from (used_effects m) ks \<and> length fxs = n - i"
  using assms
proof (induction g m i n p arbitrary: fxs m' p' rule: effects_for_clips.induct)
  case (1 g m i n p)
  show ?case
  proof (cases "i < n")
    case False
    with "1.prems"(3) show ?thesis by (simp add: effects_for_clips.simps[of g m i])
  next
    case True
    from True "1.prems"(3) obtain fx m1 p1 fxs1 where
      step: "get_effects_for_clip g m i n p = Some (fx, m1, p1)" and
      rest: "effects_for_clips g m1 (Suc i) n p1 = Some (fxs1, m', p')" and
      fxs: "fxs = fx # fxs1"
      by (auto simp add: effects_for_clips.simps[of g m i] split: option.splits)
    from step obtain r p0 where kb: "select_ken_burns g m i p = Some (r, m1, p0)"
      and fxr: "fx_ken_burns fx = r"
      by (auto simp add: get_effects_for_clip_def split: option.splits)
    from select_ken_burns_random[OF "1.prems"(1,2) kb] obtain e where
      e: "r = Some e" "e \<in> set (ken_burns (settings m))"
         "e \<notin> set (last_two (used_effects m))"
         "m1 = m\<lparr>used_effects := used_effects m @ [e]\<rparr>"
      by blast
    have s1: "settings m1 = settings m" and u1: "used_effects m1 = used_effects m @ [e]"
      using e(4) by simp_all
    from "1.IH"[OF True step refl refl _ _ rest] "1.prems"(1,2) s1
    obtain ks where ks: "map fx_ken_burns fxs1 = map Some ks"
        "set ks \<subseteq> set (ken_burns (settings m))"
        "no_repeat_from (used_effects m1) ks" "length fxs1 = n - Suc i"
      by auto
    have "map fx_ken_burns fxs = map Some (e # ks)" using fxs fxr e(1) ks(1) by simp
    moreover have "set (e # ks) \<subseteq> set (ken_burns (settings m))" using e(2) ks(2) by simp
    moreover have "no_repeat_from (used_effects m) (e # ks)" using e(3) ks(3) u1 by simp
    moreover have "length fxs = n - i" using fxs ks(4) True by simp
    ultimately show ?thesis by blast
  qed
qed

lemma nth_in_set_drop:
  assumes "n \<le> k" and "k < length xs"
  shows "xs ! k \<in> set (drop n xs)"
proof -
  have "drop n xs ! (k - n) = xs ! k" using assms by simp
  moreover have "k - n < length (drop n xs)" using assms by simp
  ultimately show ?thesis by (metis nth_mem)
qed

lemma no_repeat_from_nth:
  assumes "no_repeat_from u ks" and "j < length ks"
  shows "(1 \<le> length u + j \<longrightarrow> (u @ ks) ! (length u + j - 1) \<noteq> ks ! j) \<and>
         (2 \<le> length u + j \<longrightarrow> (u @ ks) ! (length u + j - 2) \<noteq> ks ! j)"
  using assms
proof (induction ks arbitrary: u j)
  case Nil
  then show ?case by simp
next
  case (Cons k ks)
  show ?case
  proof (cases j)
    case 0
    have k: "k \<notin> set (last_two u)" using Cons.prems(1) by simp
    have a: "1 \<le> length u \<Longrightarrow> u ! (length u - 1) \<in> set (last_two u)"
      by (simp add: last_two_def nth_in_set_drop)
    have b: "2 \<le> length u \<Longrightarrow> u ! (length u - 2) \<in> set (last_two u)"
      by (simp add: last_two_def nth_in_set_drop)
    have a': "(u @ k # ks) ! (length u - 1) \<noteq> k" if "1 \<le> length u"
    proof -
      have "length u - 1 < length u" using that by arith
      then have "(u @ k # ks) ! (length u - 1) = u ! (length u - 1)"
        by (simp only: nth_append if_True)
      then show ?thesis using a[OF that] k by metis
    qed
    have b': "(u @ k # ks) ! (length u - 2) \<noteq> k" if "2 \<le> length u"
    proof -
      have "length u - 2 < length u" using that by arith
      then have "(u @ k # ks) ! (length u - 2) = u ! (length u - 2)"
        by (simp only: nth_append if_True)
      then show ?thesis using b[OF that] k by metis
    qed
    show ?thesis using 0 a' b' by simp
  next
    case (Suc j')
    have nr: "no_repeat_from (u @ [k]) ks" using Cons.prems(1) by simp
    have j': "j' < length ks" using Cons.prems(2) Suc by simp
    from Cons.IH[OF nr j'] show ?thesis using Suc by simp
  qed
qed

lemma ken_burns_sequence_no_repeat:
  assumes "kb_randomize s" and "3 \<le> card (set (ken_burns s))"
    and "effects_for_clips g (effects_manager_init s) 0 n 0 = Some (fxs, m', p')"
  shows "length fxs = n \<and>
         (\<forall>i<n. \<exists>e. fx_ken_burns (fxs ! i) = Some e \<and> e \<in> set (ken_burns s) \<and>
            (1 \<le> i \<longrightarrow> fx_ken_burns (fxs ! (i - 1)) \<noteq> Some e) \<and>
            (2 \<le> i \<longrightarrow> fx_ken_burns (fxs ! (i - 2)) \<noteq> Some e))"
proof -
  have s: "settings (effects_manager_init s) = s"
    and u: "used_effects (effects_manager_init s) = []"
    by (simp_all add: effects_manager_init_def)
  from effects_for_clips_no_repeat[OF _ _ assms(3)] assms(1,2) s u
  obtain ks where ks: "map fx_ken_burns fxs = map Some ks" "set ks \<subseteq> set (ken_burns s)"
      "no_repeat_from [] ks" "length fxs = n"
    by auto
  have len: "length ks = n" using ks(1,4) by (metis length_map)
  have nth: "fx_ken_burns (fxs ! i) = Some (ks ! i)" if "i < n" for i
  proof -
    have "map fx_ken_burns fxs ! i = map Some ks ! i" using ks(1) by simp
    then show ?thesis using that ks(4) len by simp
  qed
  have step: "\<exists>e. fx_ken_burns (fxs ! i) = Some e \<and> e \<in> set (ken_burns s) \<and>
            (1 \<le> i \<longrightarrow> fx_ken_burns (fxs ! (i - 1)) \<noteq> Some e) \<and>
            (2 \<le> i \<longrightarrow> fx_ken_burns (fxs ! (i - 2)) \<noteq> Some e)" if i: "i < n" for i
  proof -
    have il: "i < length ks" using i len by simp
    from no_repeat_from_nth[OF ks(3) il]
    have d1: "1 \<le> i \<longrightarrow> ks ! (i - 1) \<noteq> ks ! i" and d2: "2 \<le> i \<longrightarrow> ks ! (i - 2) \<noteq> ks ! i"
      by simp_all
    have mem: "ks ! i \<in> set (ken_burns s)" using ks(2) il by (meson nth_mem subsetD)
    have p1: "fx_ken_burns (fxs ! (i - 1)) = Some (ks ! (i - 1))"
      using nth[of "i - 1"] i by simp
    have p2: "fx_ken_burns (fxs ! (i - 2)) = Some (ks ! (i - 2))"
      using nth[of "i - 2"] i by simp
    show ?thesis using nth[OF i] mem d1 d2 p1 p2 by simp
  qed
  show ?thesis using ks(4) step by blast
qed

lemma select_ken_burns_fallback:
  assumes "kb_randomize (settings m)" and "ken_burns (settings m) \<noteq> []"
    and "filter (\<lambda>e. e \<notin> set (last_two (used_effects m))) (ken_burns (settings m)) = []"
  shows "select_ken_burns g m i p =
           Some (Some (ken_burns (settings m) ! (g p mod length (ken_burns (settings m)))),
                 m\<lparr>used_effects := used_effects m @
                      [ken_burns (settings m) ! (g p mod length (ken_burns (settings m)))]\<rparr>,
                 Suc p)"
  using assms by (simp add: select_ken_burns_def Let_def random_choice_def)

text \<open>
  Claim C8, with the bound on distinct members. When the configured Ken Burns list has at
  least three distinct members, no pick of a clip sequence equals either of the two picks
  before it; and whenever excluding the last two picks empties the candidate list, the pick is
  drawn from the full configured list.
\<close>

theorem ken_burns_random_no_repeat:
  "(kb_randomize s \<and> 3 \<le> card (set (ken_burns s)) \<and>
    effects_for_clips g (effects_manager_init s) 0 n 0 = Some (fxs, m', p') \<longrightarrow>
      length fxs = n \<and>
      (\<forall>i<n. \<exists>e. fx_ken_burns (fxs ! i) = Some e \<and> e \<in> set (ken_burns s) \<and>
         (1 \<le> i \<longrightarrow> fx_ken_burns (fxs ! (i - 1)) \<noteq> Some e) \<and>
         (2 \<le> i \<longrightarrow> fx_ken_burns (fxs ! (i - 2)) \<noteq> Some e))) \<and>
   (kb_randomize (settings m) \<and> ken_burns (settings m) \<noteq> [] \<and>
    filter (\<lambda>e. e \<notin> set (last_two (used_effects m))) (ken_burns (settings m)) = [] \<longrightarrow>
      select_ken_burns g m i p =
        Some (Some (ken_burns (settings m) ! (g p mod length (ken_burns (settings m)))),
              m\<lparr>used_effects := used_effects m @
                   [ken_burns (settings m) ! (g p mod length (ken_burns (settings m)))]\<rparr>,
              Suc p))"
proof (intro conjI impI)
  assume h: "kb_randomize s \<and> 3 \<le> card (set (ken_burns s)) \<and>
    effects_for_clips g (effects_manager_init s) 0 n 0 = Some (fxs, m', p')"
  from ken_burns_sequence_no_repeat[of s g n fxs m' p'] h
  show "length fxs = n" by blast
  from ken_burns_sequence_no_repeat[of s g n fxs m' p'] h
  show "\<forall>i<n. \<exists>e. fx_ken_burns (fxs ! i) = Some e \<and> e \<in> set (ken_burns s) \<and>
         (1 \<le> i \<longrightarrow> fx_ken_burns (fxs ! (i - 1)) \<noteq> Some e) \<and>
         (2 \<le> i \<longrightarrow> fx_ken_burns (fxs ! (i - 2)) \<noteq> Some e)" by blast
next
  assume h: "kb_randomize (settings m) \<and> ken_burns (settings m) \<noteq> [] \<and>
    filter (\<lambda>e. e \<notin> set (last_two (used_effects m))) (ken_burns (settings m)) = []"
  then show "select_ken_burns g m i p =
        Some (Some (ken_burns (settings m) ! (g p mod length (ken_burns (settings m)))),
              m\<lparr>used_effects := used_effects m @
                   [ken_burns (settings m) ! (g p mod length (ken_burns (settings m)))]\<rparr>,
              Suc p)"
    using select_ken_burns_fallback[of m g i p] by blast
qed

lemma kb_three_eval:
  "effects_for_clips rng_zero (effects_manager_init settings_kb_three) 0 3 0 =
     Some (picks_kb_three,
           \<lparr>settings = settings_kb_three, used_effects = [''zoomIn'', ''zoomOut'', ''panLeft'']\<rparr>, 3)"
  by code_simp

lemma kb_three_hyps:
  "kb_randomize settings_kb_three \<and> 3 \<le> card (set (ken_burns settings_kb_three))"
  by (simp add: settings_kb_three_def default_effects_def)

lemma manager_after_two_hyps:
  "kb_randomize (settings manager_after_two) \<and> ken_burns (settings manager_after_two) \<noteq> [] \<and>
   filter (\<lambda>e. e \<notin> set (last_two (used_effects manager_after_two)))
     (ken_burns (settings manager_after_two)) = []"
  by (simp add: manager_after_two_def settings_kb_duplicates_def default_effects_def last_two_def)

theorem ken_burns_random_no_repeat_witness:
  "kb_randomize settings_kb_three \<and> 3 \<le> card (set (ken_burns settings_kb_three)) \<and>
   effects_for_clips rng_zero (effects_manager_init settings_kb_three) 0 3 0 =
     Some (picks_kb_three,
           \<lparr>settings = settings_kb_three, used_effects = [''zoomIn'', ''zoomOut'', ''panLeft'']\<rparr>, 3) \<and>
   length picks_kb_three = 3 \<and>
   (\<exists>e. fx_ken_burns (picks_kb_three ! 2) = Some e \<and>
       e \<in> set (ken_burns settings_kb_three) \<and>
       fx_ken_burns (picks_kb_three ! 1) \<noteq> Some e \<and>
       fx_ken_burns (picks_kb_three ! 0) \<noteq> Some e) \<and>
   kb_randomize (settings manager_after_two) \<and> ken_burns (settings manager_after_two) \<noteq> [] \<and>
   filter (\<lambda>e. e \<notin> set (last_two (used_effects manager_after_two)))
     (ken_burns (settings manager_after_two)) = [] \<and>
   select_ken_burns rng_zero manager_after_two 2 2 =
     Some (Some (ken_burns (settings manager_after_two) !
                   (rng_zero 2 mod length (ken_burns (settings manager_after_two)))),
           manager_after_two\<lparr>used_effects := used_effects manager_after_two @
              [ken_burns (settings manager_after_two) !
                 (rng_zero 2 mod length (ken_burns (settings manager_after_two)))]\<rparr>,
           Suc 2)"
proof -
  note t = ken_burns_random_no_repeat[of settings_kb_three rng_zero 3 picks_kb_three
      "\<lparr>settings = settings_kb_three, used_effects = [''zoomIn'', ''zoomOut'', ''panLeft'']\<rparr>" 3
      manager_after_two 2 2]
  have a: "kb_randomize settings_kb_three \<and> 3 \<le> card (set (ken_burns settings_kb_three)) \<and>
    effects_for_clips rng_zero (effects_manager_init settings_kb_three) 0 3 0 =
     Some (picks_kb_three,
           \<lparr>settings = settings_kb_three, used_effects = [''zoomIn'', ''zoomOut'', ''panLeft'']\<rparr>, 3)"
    using kb_three_hyps kb_three_eval by (intro conjI) simp_all
  note c = mp[OF conjunct1[OF t] a]
  have len: "length picks_kb_three = 3" using c by (rule conjunct1)
  have lt: "(2::nat) < 3" by simp
  have two: "\<exists>e. fx_ken_burns (picks_kb_three ! 2) = Some e \<and>
       e \<in> set (ken_burns settings_kb_three) \<and>
       fx_ken_burns (picks_kb_three ! 1) \<noteq> Some e \<and>
       fx_ken_burns (picks_kb_three ! 0) \<noteq> Some e"
    using mp[OF spec[OF conjunct2[OF c], of 2] lt] by (simp del: set_simps)
  note d = mp[OF conjunct2[OF t] manager_after_two_hyps]
  show ?thesis using a len two manager_after_two_hyps d by (intro conjI) blast+
qed

text \<open>
  Claim C8 as stated fails for a configured list with three members of which two are equal:
  the list passes validation unchanged, and the third pick repeats the first.
\<close>

theorem ken_burns_three_members_counterexample:
  "effect_settings_validate settings_kb_duplicates = settings_kb_duplicates \<and>
   length (ken_burns settings_kb_duplicates) = 3 \<and> kb_randomize settings_kb_duplicates \<and>
   effects_for_clips rng_zero (effects_manager_init settings_kb_duplicates) 0 3 0 =
     Some (picks_kb_duplicates,
           \<lparr>settings = settings_kb_duplicates,
            used_effects = [''zoomIn'', ''zoomOut'', ''zoomIn'']\<rparr>, 3) \<and>
   fx_ken_burns (picks_kb_duplicates ! 2) = fx_ken_burns (picks_kb_duplicates ! 0)"
proof -
  have v: "effect_settings_validate settings_kb_duplicates = settings_kb_duplicates"
    by (simp add: effect_settings_validate_def validate_effect_lists_def
        settings_kb_duplicates_def default_effects_def valid_ken_burns_def valid_transitions_def)
  have l: "length (ken_burns settings_kb_duplicates) = 3 \<and> kb_randomize settings_kb_duplicates"
    by (simp add: settings_kb_duplicates_def default_effects_def)
  have e: "effects_for_clips rng_zero (effects_manager_init settings_kb_duplicates) 0 3 0 =
     Some (picks_kb_duplicates,
           \<lparr>settings = settings_kb_duplicates,
            used_effects = [''zoomIn'', ''zoomOut'', ''zoomIn'']\<rparr>, 3)"
    by code_simp
  have p: "fx_ken_burns (picks_kb_duplicates ! 2) = fx_ken_burns (picks_kb_duplicates ! 0)"
    by (simp add: picks_kb_duplicates_def)
  show ?thesis using v l e p by (intro conjI) simp_all
qed

subsection \<open>The filter compiler never returns an empty text for an implemented effect\<close>

lemma capcut_implemented_nonempty:
  assumes "effect \<in> {''zoomBurst'', ''pulse'', ''bounce'', ''shake'', ''glitch'', ''chromatic'',
                      ''zoomBlur'', ''wobble''}"
  shows "generate_capcut_filter fs av effect duration s i \<noteq> ''''"
  using assms by (auto simp add: generate_capcut_filter_def Let_def)

lemma capcut_spin:
  "(generate_capcut_filter fs av ''spin'' duration s i \<noteq> '''') = dict_get av ''rotate'' True"
  by (simp add: generate_capcut_filter_def Let_def)

lemma capcut_glitch_fallback:
  assumes "\<not> (dict_get av ''split'' True \<and> dict_get av ''blend'' True)"
  shows "prefix ''eq=brightness='' (generate_capcut_filter fs av ''glitch'' duration s i)"
  using assms by (auto simp add: generate_capcut_filter_def Let_def)

lemma capcut_chromatic_fallback:
  assumes "\<not> (dict_get av ''split'' True \<and> dict_get av ''colorchannelmixer'' True)"
  shows "prefix ''eq=saturation='' (generate_capcut_filter fs av ''chromatic'' duration s i)"
  using assms by (auto simp add: generate_capcut_filter_def Let_def)

lemma join_nonempty:
  assumes "xs \<noteq> []" and "hd xs \<noteq> []"
  shows "join sep xs \<noteq> []"
proof (cases xs)
  case Nil
  then show ?thesis using assms by simp
next
  case (Cons x ys)
  then show ?thesis using assms by (cases ys) auto
qed

lemma ken_burns_implemented_nonempty:
  assumes "effect \<in> {''zoomIn'', ''zoomOut'', ''panLeft'', ''panRight'', ''rotate'', ''diagonal'',
                      ''zoomRotate'', ''parallax''}"
    and "dict_get av ''zoompan'' True"
  shows "generate_ken_burns_filter fs av effect duration intensity res easing sm \<noteq> ''''"
  using assms by (auto simp add: generate_ken_burns_filter_def Let_def join_nonempty)

lemma ken_burns_no_zoompan:
  assumes "\<not> dict_get av ''zoompan'' True"
  shows "generate_ken_burns_filter fs av effect duration intensity res easing sm = ''''"
  using assms by (simp add: generate_ken_burns_filter_def)

text \<open>
  Claim C1, as the code has it. For every capability set: each of the transient effects
  zoomBurst, pulse, bounce, shake, glitch, chromatic, zoomBlur and wobble compiles to a
  non-empty filter text; glitch and chromatic fall back to a brightness and a saturation pulse
  when a primitive they need is unavailable; spin compiles to a non-empty text exactly when
  rotation is available; each of the Ken Burns effects zoomIn, zoomOut, panLeft, panRight,
  rotate, diagonal, zoomRotate and parallax compiles to a non-empty text when zoompan is
  available; and every Ken Burns effect compiles to the empty text when zoompan is unavailable.
\<close>

theorem implemented_effects_never_empty:
  "(effect \<in> {''zoomBurst'', ''pulse'', ''bounce'', ''shake'', ''glitch'', ''chromatic'',
       ''zoomBlur'', ''wobble''} \<longrightarrow>
      generate_capcut_filter fs av effect duration s i \<noteq> '''') \<and>
   (\<not> (dict_get av ''split'' True \<and> dict_get av ''blend'' True) \<longrightarrow>
      prefix ''eq=brightness='' (generate_capcut_filter fs av ''glitch'' duration s i)) \<and>
   (\<not> (dict_get av ''split'' True \<and> dict_get av ''colorchannelmixer'' True) \<longrightarrow>
      prefix ''eq=saturation='' (generate_capcut_filter fs av ''chromatic'' duration s i)) \<and>
   ((generate_capcut_filter fs av ''spin'' duration s i \<noteq> '''') = dict_get av ''rotate'' True) \<and>
   (kb \<in> {''zoomIn'', ''zoomOut'', ''panLeft'', ''panRight'', ''rotate'', ''diagonal'',
       ''zoomRotate'', ''parallax''} \<and> dict_get av ''zoompan'' True \<longrightarrow>
      generate_ken_burns_filter fs av kb duration intensity res easing sm \<noteq> '''') \<and>
   (\<not> dict_get av ''zoompan'' True \<longrightarrow>
      generate_ken_burns_filter fs av kb duration intensity res easing sm = '''')"
proof (intro conjI impI)
  assume "effect \<in> {''zoomBurst'', ''pulse'', ''bounce'', ''shake'', ''glitch'', ''chromatic'',
       ''zoomBlur'', ''wobble''}"
  then show "generate_capcut_filter fs av effect duration s i \<noteq> ''''"
    by (rule capcut_implemented_nonempty)
next
  assume "\<not> (dict_get av ''split'' True \<and> dict_get av ''blend'' True)"
  then show "prefix ''eq=brightness='' (generate_capcut_filter fs av ''glitch'' duration s i)"
    by (rule capcut_glitch_fallback)
next
  assume "\<not> (dict_get av ''split'' True \<and> dict_get av ''colorchannelmixer'' True)"
  then show "prefix ''eq=saturation='' (generate_capcut_filter fs av ''chromatic'' duration s i)"
    by (rule capcut_chromatic_fallback)
next
  show "(generate_capcut_filter fs av ''spin'' duration s i \<noteq> '''') = dict_get av ''rotate'' True"
    by (rule capcut_spin)
next
  assume h: "kb \<in> {''zoomIn'', ''zoomOut'', ''panLeft'', ''panRight'', ''rotate'', ''diagonal'',
       ''zoomRotate'', ''parallax''} \<and> dict_get av ''zoompan'' True"
  show "generate_ken_burns_filter fs av kb duration intensity res easing sm \<noteq> ''''"
    by (rule ken_burns_implemented_nonempty[OF conjunct1[OF h] conjunct2[OF h]])
next
  assume "\<not> dict_get av ''zoompan'' True"
  then show "generate_ken_burns_filter fs av kb duration intensity res easing sm = ''''"
    by (rule ken_burns_no_zoompan)
qed

lemma all_false_get: "n \<in> set filters_to_check \<Longrightarrow> dict_get all_false_filters n d = False"
  by (auto simp add: all_false_filters_def dict_get_def filters_to_check_def)

lemma all_false_hyps:
  "\<not> (dict_get all_false_filters ''split'' True \<and> dict_get all_false_filters ''blend'' True)"
  "\<not> (dict_get all_false_filters ''split'' True \<and>
      dict_get all_false_filters ''colorchannelmixer'' True)"
  "\<not> dict_get all_false_filters ''zoompan'' True"
  by (simp_all add: all_false_get filters_to_check_def)

theorem implemented_effects_never_empty_witness:
  "''glitch'' \<in> {''zoomBurst'', ''pulse'', ''bounce'', ''shake'', ''glitch'', ''chromatic'',
       ''zoomBlur'', ''wobble''} \<and>
   generate_capcut_filter fstr_example all_false_filters ''glitch'' 5 default_effects 0 \<noteq> '''' \<and>
   prefix ''eq=brightness=''
     (generate_capcut_filter fstr_example all_false_filters ''glitch'' 5 default_effects 0) \<and>
   prefix ''eq=saturation=''
     (generate_capcut_filter fstr_example all_false_filters ''chromatic'' 5 default_effects 0) \<and>
   generate_ken_burns_filter fstr_example all_false_filters ''zoomIn'' 5 30 (1920, 1080)
     ''ease'' (7 / 10) = '''' \<and>
   ''zoomIn'' \<in> {''zoomIn'', ''zoomOut'', ''panLeft'', ''panRight'', ''rotate'', ''diagonal'',
       ''zoomRotate'', ''parallax''} \<and>
   dict_get Map.empty ''zoompan'' True \<and>
   generate_ken_burns_filter fstr_example Map.empty ''zoomIn'' 5 30 (1920, 1080)
     ''ease'' (7 / 10) \<noteq> ''''"
proof -
  note a = implemented_effects_never_empty[of "''glitch''" fstr_example all_false_filters 5
      default_effects 0 "''zoomIn''" 30 "(1920, 1080)" "''ease''" "7 / 10"]
  note b = implemented_effects_never_empty[of "''glitch''" fstr_example Map.empty 5
      default_effects 0 "''zoomIn''" 30 "(1920, 1080)" "''ease''" "7 / 10"]
  have g: "''glitch'' \<in> {''zoomBurst'', ''pulse'', ''bounce'', ''shake'', ''glitch'', ''chromatic'',
       ''zoomBlur'', ''wobble''}"
    by simp
  have k: "''zoomIn'' \<in> {''zoomIn'', ''zoomOut'', ''panLeft'', ''panRight'', ''rotate'', ''diagonal'',
       ''zoomRotate'', ''parallax''}"
    by simp
  have z: "dict_get Map.empty ''zoompan'' True" by (simp add: dict_get_def)
  have a1: "generate_capcut_filter fstr_example all_false_filters ''glitch'' 5 default_effects 0
              \<noteq> ''''"
    by (rule mp[OF conjunct1[OF a] g])
  have a2: "prefix ''eq=brightness=''
     (generate_capcut_filter fstr_example all_false_filters ''glitch'' 5 default_effects 0)"
    by (rule mp[OF conjunct1[OF conjunct2[OF a]] all_false_hyps(1)])
  have a3: "prefix ''eq=saturation=''
     (generate_capcut_filter fstr_example all_false_filters ''chromatic'' 5 default_effects 0)"
    by (rule mp[OF conjunct1[OF conjunct2[OF conjunct2[OF a]]] all_false_hyps(2)])
  have a6: "generate_ken_burns_filter fstr_example all_false_filters ''zoomIn'' 5 30 (1920, 1080)
     ''ease'' (7 / 10) = ''''"
    by (rule mp[OF conjunct2[OF conjunct2[OF conjunct2[OF conjunct2[OF conjunct2[OF a]]]]]
        all_false_hyps(3)])
  have b5: "generate_ken_burns_filter fstr_example Map.empty ''zoomIn'' 5 30 (1920, 1080)
     ''ease'' (7 / 10) \<noteq> ''''"
    by (rule mp[OF conjunct1[OF conjunct2[OF conjunct2[OF conjunct2[OF conjunct2[OF b]]]]]
        conjI[OF k z]])
  show ?thesis using g a1 a2 a3 a6 k z b5 by (intro conjI)
qed

text \<open>
  Claim C1 as stated fails on the all-false capability set: the Ken Burns effect zoomIn and
  the transient effect spin, both accepted by validation, compile to the empty text.
\<close>

theorem all_false_capabilities_counterexample:
  "''zoomIn'' \<in> set valid_ken_burns \<and>
   generate_ken_burns_filter fstr_example all_false_filters ''zoomIn'' 5 30 (1920, 1080)
     ''ease'' (7 / 10) = '''' \<and>
   ''spin'' \<in> set valid_capcut \<and>
   generate_capcut_filter fstr_example all_false_filters ''spin'' 5 default_effects 0 = ''''"
  by (simp add: valid_ken_burns_def valid_capcut_def generate_ken_burns_filter_def
      generate_capcut_filter_def all_false_get filters_to_check_def)

subsection \<open>The zoom scale expressions at the first and the last frame\<close>

lemmas eval_defs = ffmpeg_eval_def zoom_in_scale_expr_def zoom_out_scale_expr_def
  get_easing_expression_def easing_map_def clip_easing_def
  num_def Let_def frame_def apply_fun_def eval_nat_numeral

lemma clip_easing_default:
  assumes "easing \<notin> {''linear'', ''ease'', ''ease-in'', ''ease-out'', ''ease-in-out'', ''bounce'',
                      ''elastic'', ''back''}"
  shows "clip_easing easing n = clip_easing ''ease'' n"
  using assms by (simp add: clip_easing_def get_easing_expression_def easing_map_def)

lemma zoom_in_linear:
  assumes "0 < n"
  shows "ffmpeg_eval (frame 0) (zoom_in_scale_expr fs f (clip_easing ''linear'' n))
           = Some (1 + f * (3 / 10))"
    and "ffmpeg_eval (frame (real_of_int n)) (zoom_in_scale_expr fs f (clip_easing ''linear'' n))
           = Some 1"
  using assms by (simp_all add: eval_defs)

lemma zoom_in_ease:
  assumes "0 < n"
  shows "ffmpeg_eval (frame 0) (zoom_in_scale_expr fs f (clip_easing ''ease'' n))
           = Some (1 + f * (3 / 10))"
    and "ffmpeg_eval (frame (real_of_int n)) (zoom_in_scale_expr fs f (clip_easing ''ease'' n))
           = Some 1"
  using assms by (simp_all add: eval_defs)

lemma zoom_in_ease_in:
  assumes "0 < n"
  shows "ffmpeg_eval (frame 0) (zoom_in_scale_expr fs f (clip_easing ''ease-in'' n))
           = Some (1 + f * (3 / 10))"
    and "ffmpeg_eval (frame (real_of_int n)) (zoom_in_scale_expr fs f (clip_easing ''ease-in'' n))
           = Some 1"
  using assms by (simp_all add: eval_defs)

lemma zoom_in_ease_out:
  assumes "0 < n"
  shows "ffmpeg_eval (frame 0) (zoom_in_scale_expr fs f (clip_easing ''ease-out'' n))
           = Some (1 + f * (3 / 10))"
    and "ffmpeg_eval (frame (real_of_int n)) (zoom_in_scale_expr fs f (clip_easing ''ease-out'' n))
           = Some 1"
  using assms by (simp_all add: eval_defs)

lemma zoom_in_ease_in_out:
  assumes "0 < n"
  shows "ffmpeg_eval (frame 0) (zoom_in_scale_expr fs f (clip_easing ''ease-in-out'' n))
           = Some (1 + f * (3 / 10))"
    and "ffmpeg_eval (frame (real_of_int n))
           (zoom_in_scale_expr fs f (clip_easing ''ease-in-out'' n)) = Some 1"
  using assms by (simp_all add: eval_defs)

lemma zoom_in_bounce:
  assumes "0 < n"
  shows "ffmpeg_eval (frame 0) (zoom_in_scale_expr fs f (clip_easing ''bounce'' n))
           = Some (1 + f * (3 / 10))"
    and "ffmpeg_eval (frame (real_of_int n)) (zoom_in_scale_expr fs f (clip_easing ''bounce'' n))
           = Some (1 + f * (3 / 10) - f * (3 / 10) * \<bar>sin 10\<bar>)"
  using assms by (simp_all add: eval_defs)

lemma zoom_in_back:
  assumes "0 < n"
  shows "ffmpeg_eval (frame 0) (zoom_in_scale_expr fs f (clip_easing ''back'' n))
           = Some (1 + f * (3 / 10))"
    and "ffmpeg_eval (frame (real_of_int n)) (zoom_in_scale_expr fs f (clip_easing ''back'' n))
           = Some 1"
  using assms by (simp_all add: eval_defs)

lemma zoom_out_linear:
  assumes "0 < n"
  shows "ffmpeg_eval (frame 0) (zoom_out_scale_expr fs f (clip_easing ''linear'' n)) = Some 1"
    and "ffmpeg_eval (frame (real_of_int n)) (zoom_out_scale_expr fs f (clip_easing ''linear'' n))
           = Some (1 + f * (3 / 10))"
  using assms by (simp_all add: eval_defs)

lemma zoom_out_ease:
  assumes "0 < n"
  shows "ffmpeg_eval (frame 0) (zoom_out_scale_expr fs f (clip_easing ''ease'' n)) = Some 1"
    and "ffmpeg_eval (frame (real_of_int n)) (zoom_out_scale_expr fs f (clip_easing ''ease'' n))
           = Some (1 + f * (3 / 10))"
  using assms by (simp_all add: eval_defs)

lemma zoom_out_ease_in:
  assumes "0 < n"
  shows "ffmpeg_eval (frame 0) (zoom_out_scale_expr fs f (clip_easing ''ease-in'' n)) = Some 1"
    and "ffmpeg_eval (frame (real_of_int n)) (zoom_out_scale_expr fs f (clip_easing ''ease-in'' n))
           = Some (1 + f * (3 / 10))"
  using assms by (simp_all add: eval_defs)

lemma zoom_out_ease_out:
  assumes "0 < n"
  shows "ffmpeg_eval (frame 0) (zoom_out_scale_expr fs f (clip_easing ''ease-out'' n)) = Some 1"
    and "ffmpeg_eval (frame (real_of_int n)) (zoom_out_scale_expr fs f (clip_easing ''ease-out'' n))
           = Some (1 + f * (3 / 10))"
  using assms by (simp_all add: eval_defs)

lemma zoom_out_ease_in_out:
  assumes "0 < n"
  shows "ffmpeg_eval (frame 0) (zoom_out_scale_expr fs f (clip_easing ''ease-in-out'' n)) = Some 1"
    and "ffmpeg_eval (frame (real_of_int n))
           (zoom_out_scale_expr fs f (clip_easing ''ease-in-out'' n)) = Some (1 + f * (3 / 10))"
  using assms by (simp_all add: eval_defs)

lemma zoom_out_bounce:
  assumes "0 < n"
  shows "ffmpeg_eval (frame 0) (zoom_out_scale_expr fs f (clip_easing ''bounce'' n)) = Some 1"
    and "ffmpeg_eval (frame (real_of_int n)) (zoom_out_scale_expr fs f (clip_easing ''bounce'' n))
           = Some (1 + f * (3 / 10) * \<bar>sin 10\<bar>)"
  using assms by (simp_all add: eval_defs)

lemma zoom_out_back:
  assumes "0 < n"
  shows "ffmpeg_eval (frame 0) (zoom_out_scale_expr fs f (clip_easing ''back'' n)) = Some 1"
    and "ffmpeg_eval (frame (real_of_int n)) (zoom_out_scale_expr fs f (clip_easing ''back'' n))
           = Some (1 + f * (3 / 10))"
  using assms by (simp_all add: eval_defs)

text \<open>
  With the easing \<open>elastic\<close> the easing text \<open>1-cos(...)*exp(...)\<close> is spliced after a
  product sign without parentheses, so only its leading \<open>1\<close> is multiplied.
\<close>

lemma zoom_in_elastic:
  assumes "0 < n"
  shows "ffmpeg_eval (frame 0) (zoom_in_scale_expr fs f (clip_easing ''elastic'' n)) = Some 0"
    and "ffmpeg_eval (frame (real_of_int n)) (zoom_in_scale_expr fs f (clip_easing ''elastic'' n))
           = Some (1 - cos 20 * exp (- 5))"
  using assms by (simp_all add: eval_defs)

lemma zoom_out_elastic:
  assumes "0 < n"
  shows "ffmpeg_eval (frame 0) (zoom_out_scale_expr fs f (clip_easing ''elastic'' n))
           = Some (f * (3 / 10))"
    and "ffmpeg_eval (frame (real_of_int n)) (zoom_out_scale_expr fs f (clip_easing ''elastic'' n))
           = Some (1 + f * (3 / 10) - cos 20 * exp (- 5))"
  using assms by (simp_all add: eval_defs)

lemma bounce_bounds:
  fixes f :: real
  assumes "0 \<le> f"
  shows "1 \<le> 1 + f * (3 / 10) - f * (3 / 10) * \<bar>sin 10\<bar>"
    and "1 + f * (3 / 10) - f * (3 / 10) * \<bar>sin (10 :: real)\<bar> \<le> 1 + f * (3 / 10)"
    and "1 \<le> 1 + f * (3 / 10) * \<bar>sin (10 :: real)\<bar>"
    and "1 + f * (3 / 10) * \<bar>sin (10 :: real)\<bar> \<le> 1 + f * (3 / 10)"
proof -
  have s: "0 \<le> \<bar>sin (10 :: real)\<bar>" "\<bar>sin (10 :: real)\<bar> \<le> 1" by simp_all
  have a: "0 \<le> f * (3 / 10)" using assms by simp
  have b: "f * (3 / 10) * \<bar>sin (10 :: real)\<bar> \<le> f * (3 / 10)"
    using s(2) a by (rule mult_left_le)
  have c: "0 \<le> f * (3 / 10) * \<bar>sin (10 :: real)\<bar>" using a s(1) by (rule mult_nonneg_nonneg)
  show "1 \<le> 1 + f * (3 / 10) - f * (3 / 10) * \<bar>sin 10\<bar>" using b by simp
  show "1 + f * (3 / 10) - f * (3 / 10) * \<bar>sin (10 :: real)\<bar> \<le> 1 + f * (3 / 10)" using c by simp
  show "1 \<le> 1 + f * (3 / 10) * \<bar>sin (10 :: real)\<bar>" using c by simp
  show "1 + f * (3 / 10) * \<bar>sin (10 :: real)\<bar> \<le> 1 + f * (3 / 10)" using b by simp
qed

text \<open>
  For every easing type but \<open>elastic\<close> (an unknown type is treated as \<open>ease\<close>), every
  intensity factor in \<open>[0, 1]\<close> and every positive frame count, the zoom-in and the zoom-out
  scale expression evaluate at the first and at the last frame to a value between the scale
  1 and the scale \<open>1 + 0.3 \<sqdot> intensity / 100\<close>.
\<close>

lemma zoom_scale_bounds_except_elastic:
  assumes f: "0 \<le> f" and n: "0 < n" and e: "easing \<noteq> ''elastic''"
  shows "\<exists>a b c d.
           ffmpeg_eval (frame 0) (zoom_in_scale_expr fs f (clip_easing easing n)) = Some a \<and>
           ffmpeg_eval (frame (real_of_int n)) (zoom_in_scale_expr fs f (clip_easing easing n))
             = Some b \<and>
           ffmpeg_eval (frame 0) (zoom_out_scale_expr fs f (clip_easing easing n)) = Some c \<and>
           ffmpeg_eval (frame (real_of_int n)) (zoom_out_scale_expr fs f (clip_easing easing n))
             = Some d \<and>
           (\<forall>x \<in> {a, b, c, d}. 1 \<le> x \<and> x \<le> 1 + f * (3 / 10))"
proof -
  have f': "0 \<le> f * (3 / 10)" using f by simp
  show ?thesis
  proof (cases "easing \<in> {''linear'', ''ease'', ''ease-in'', ''ease-out'', ''ease-in-out'',
                          ''bounce'', ''elastic'', ''back''}")
    case False
    show ?thesis
      unfolding clip_easing_default[OF False] zoom_in_ease[OF n] zoom_out_ease[OF n]
      using f' by simp
  next
    case True
    then have "easing = ''linear'' \<or> easing = ''ease'' \<or> easing = ''ease-in'' \<or>
               easing = ''ease-out'' \<or> easing = ''ease-in-out'' \<or> easing = ''bounce'' \<or>
               easing = ''back''"
      using e by simp
    then show ?thesis
    proof (elim disjE)
      assume 1: "easing = ''linear''"
      show ?thesis
        unfolding 1 zoom_in_linear[OF n] zoom_out_linear[OF n] using f' by simp
    next
      assume 2: "easing = ''ease''"
      show ?thesis
        unfolding 2 zoom_in_ease[OF n] zoom_out_ease[OF n] using f' by simp
    next
      assume 3: "easing = ''ease-in''"
      show ?thesis
        unfolding 3 zoom_in_ease_in[OF n] zoom_out_ease_in[OF n] using f' by simp
    next
      assume 4: "easing = ''ease-out''"
      show ?thesis
        unfolding 4 zoom_in_ease_out[OF n] zoom_out_ease_out[OF n] using f' by simp
    next
      assume 5: "easing = ''ease-in-out''"
      show ?thesis
        unfolding 5 zoom_in_ease_in_out[OF n] zoom_out_ease_in_out[OF n] using f' by simp
    next
      assume 6: "easing = ''bounce''"
      show ?thesis
        unfolding 6 zoom_in_bounce[OF n] zoom_out_bounce[OF n]
        using f' bounce_bounds[OF f] by simp
    next
      assume 7: "easing = ''back''"
      show ?thesis
        unfolding 7 zoom_in_back[OF n] zoom_out_back[OF n] using f' by simp
    qed
  qed
qed

lemma elastic_filter_text:
  "generate_ken_burns_filter fstr_example Map.empty ''zoomIn'' 1 30 (1920, 1080) ''elastic''
     (7 / 10) =
   ''scale=3840:2160:flags=lanczos,zoompan=z='1.09-(1.09-1.0)*1-cos(20*on/60)*exp(-5*on/60)':d=60:x='(iw-ow)/2':y='(ih-oh)/2':s=1920x1080:fps=60''"
  apply (simp add: generate_ken_burns_filter_def dict_get_def Let_def py_int_def str_int_def
      render_def zoom_in_scale_expr_def get_easing_expression_def easing_map_def
      num_def fstr_example_def sq_def)
  apply (simp add: str_nat.simps[of 60] str_nat.simps[of 6] str_nat.simps[of 3840]
      str_nat.simps[of 384] str_nat.simps[of 38] str_nat.simps[of 3] str_nat.simps[of 2160]
      str_nat.simps[of 216] str_nat.simps[of 21] str_nat.simps[of 2] str_nat.simps[of 1920]
      str_nat.simps[of 192] str_nat.simps[of 19] str_nat.simps[of 1] str_nat.simps[of "Suc 0"]
      str_nat.simps[of 1080] str_nat.simps[of 108] str_nat.simps[of 10])
  done

text \<open>
  Claim C7 fails on the code for the easing type \<open>elastic\<close>. For a one-second zoom-in clip
  of intensity 30 the compiled filter carries the scale expression
  \<^verbatim>\<open>1.09-(1.09-1.0)*1-cos(20*on/60)*exp(-5*on/60)\<close>, which evaluates to 0 at the first frame;
  the zoom-out expression evaluates to 0.09 there. Both lie outside the interval from 1 to 1.09.
\<close>

theorem elastic_zoom_scale_out_of_bounds:
  "generate_ken_burns_filter fstr_example Map.empty ''zoomIn'' 1 30 (1920, 1080) ''elastic''
     (7 / 10) =
   ''scale=3840:2160:flags=lanczos,zoompan=z='1.09-(1.09-1.0)*1-cos(20*on/60)*exp(-5*on/60)':d=60:x='(iw-ow)/2':y='(ih-oh)/2':s=1920x1080:fps=60'' \<and>
   render (zoom_in_scale_expr fstr_example (30 / 100) (clip_easing ''elastic'' 60)) =
     ''1.09-(1.09-1.0)*1-cos(20*on/60)*exp(-5*on/60)'' \<and>
   ffmpeg_eval (frame 0) (zoom_in_scale_expr fstr_example (30 / 100) (clip_easing ''elastic'' 60))
     = Some 0 \<and>
   ffmpeg_eval (frame 0) (zoom_out_scale_expr fstr_example (30 / 100) (clip_easing ''elastic'' 60))
     = Some (9 / 100)"
proof -
  have r: "render (zoom_in_scale_expr fstr_example (30 / 100) (clip_easing ''elastic'' 60)) =
     ''1.09-(1.09-1.0)*1-cos(20*on/60)*exp(-5*on/60)''"
    by (simp add: render_def zoom_in_scale_expr_def get_easing_expression_def easing_map_def
        clip_easing_def num_def fstr_example_def Let_def str_int_def str_nat.simps[of 60]
        str_nat.simps[of 6])
  have n: "(0 :: int) < 60" by simp
  have a: "ffmpeg_eval (frame 0)
             (zoom_in_scale_expr fstr_example (30 / 100) (clip_easing ''elastic'' 60)) = Some 0"
    by (rule zoom_in_elastic(1)[OF n])
  have b: "ffmpeg_eval (frame 0)
             (zoom_out_scale_expr fstr_example (30 / 100) (clip_easing ''elastic'' 60))
             = Some (9 / 100)"
    using zoom_out_elastic(1)[OF n, of fstr_example "30 / 100"] by simp
  show ?thesis using elastic_filter_text r a b by (intro conjI)
qed

subsection \<open>Capability probes\<close>

lemma check_filter_available_launched:
  "launched (snd (check_filter_available e n w)) = launched w @ [[ffmpeg e, ''-filters'']]"
  by (simp add: check_filter_available_def subprocess_run_def Let_def split: outcome.splits)

lemma probe_filters_launched:
  "launched (snd (probe_filters e ns w)) =
     launched w @ replicate (length ns) [ffmpeg e, ''-filters'']"
proof (induction ns arbitrary: w)
  case Nil
  show ?case by simp
next
  case (Cons n ns)
  show ?case
    using Cons.IH[of "snd (check_filter_available e n w)"]
      check_filter_available_launched[of e n w]
    by (simp add: split_beta replicate_append_same)
qed

lemma probe_filters_keys: "map fst (fst (probe_filters e ns w)) = ns"
  by (induction ns arbitrary: w) (simp_all add: split_beta)

lemma length_filters_to_check: "length filters_to_check = 19"
  by (simp add: filters_to_check_def)

lemma check_available_filters_launched:
  "launched (snd (check_available_filters e w)) =
     launched w @ replicate 19 [ffmpeg e, ''-filters'']"
  using probe_filters_launched[of e filters_to_check w]
  by (simp add: check_available_filters_def split_beta length_filters_to_check)

lemma check_available_filters_dom:
  "dom (fst (check_available_filters e w)) = set filters_to_check"
proof -
  have "dom (map_of (fst (probe_filters e filters_to_check w)))
          = set (map fst (fst (probe_filters e filters_to_check w)))"
    by (simp add: dom_map_of_conv_image_fst)
  then show ?thesis
    by (simp only: check_available_filters_def split_beta Let_def fst_conv probe_filters_keys)
qed

lemma afftfilt_table:
  "\<forall>kf \<in> set effect_filters. sublist ''afftfilt'' (snd kf) = (fst kf = ''robot'')"
  by code_simp

lemma afftfilt_only_robot:
  assumes "map_of effect_filters k = Some f"
  shows "sublist ''afftfilt'' f = (k = ''robot'')"
proof -
  have "(k, f) \<in> set effect_filters" using assms by (rule map_of_SomeD)
  then show ?thesis using afftfilt_table by fastforce
qed

lemma robot_in_table: "map_of effect_filters ''robot'' \<noteq> None"
  by (simp add: effect_filters_def)

lemma pitch_launched:
  "launched (snd (audio_pitch_filters e s w)) =
     launched w @ replicate (if audio_pitch s \<noteq> ''0'' \<and> pyfloat e (audio_pitch s) \<noteq> None then 1 else 0)
       [ffmpeg e, ''-filters'']"
  using check_filter_available_launched[of e "''rubberband''" w]
  by (auto simp add: audio_pitch_filters_def split_beta Let_def split: option.splits)

lemma effect_launched:
  "launched (snd (audio_effect_filters e s w)) =
     launched w @ replicate (if audio_effect s = ''robot'' then 1 else 0) [ffmpeg e, ''-filters'']"
proof (cases "map_of effect_filters (audio_effect s)")
  case None
  then have "audio_effect s \<noteq> ''robot''" using robot_in_table by auto
  then show ?thesis using None by (simp add: audio_effect_filters_def)
next
  case (Some f)
  show ?thesis
    using Some afftfilt_only_robot[OF Some] check_filter_available_launched[of e "''afftfilt''" w]
    by (simp add: audio_effect_filters_def split_beta Let_def)
qed

lemma stereo_launched:
  "launched (snd (audio_stereo_filters e s w)) =
     launched w @ replicate (if audio_stereo_enhance s then 1 else 0) [ffmpeg e, ''-filters'']"
  using check_filter_available_launched[of e "''stereotools''" w]
  by (simp add: audio_stereo_filters_def split_beta Let_def)

lemma normalize_launched:
  "launched (snd (audio_normalize_filters e s w)) =
     launched w @ replicate (if audio_normalize s then 1 else 0) [ffmpeg e, ''-filters'']"
  using check_filter_available_launched[of e "''loudnorm''" w]
  by (simp add: audio_normalize_filters_def split_beta Let_def)

lemma generate_audio_filter_launched:
  "launched (snd (generate_audio_filter e s w)) =
     launched w @ replicate (audio_probe_count e s) [ffmpeg e, ''-filters'']"
  by (simp only: generate_audio_filter_def split_beta Let_def snd_conv
      normalize_launched stereo_launched effect_launched pitch_launched
      audio_probe_count_def replicate_add append_assoc)

text \<open>
  Claim C4, as the code has it. Constructing the filter generator launches the transcoder's
  filter listing 19 times, once per name of its capability dictionary, with no cache between
  the launches; and one call of the audio filter generator launches it once more for each
  capability the call asks for, never reading the dictionary.
\<close>

theorem capability_probes_counted:
  "launched (snd (check_available_filters e w)) =
     launched w @ replicate 19 [ffmpeg e, ''-filters''] \<and>
   dom (fst (check_available_filters e w)) = set filters_to_check \<and>
   launched (snd (generate_audio_filter e s w)) =
     launched w @ replicate (audio_probe_count e s) [ffmpeg e, ''-filters'']"
  using check_available_filters_launched check_available_filters_dom
    generate_audio_filter_launched
  by (intro conjI)

text \<open>
  Claim C4 as stated fails: with the default settings (normalisation on) every call of the
  audio filter generator launches a probe, so two calls launch two.
\<close>

theorem audio_filter_probes_counterexample:
  "launched (snd (generate_audio_filter env_ok default_effects empty_world)) =
     [[''ffmpeg'', ''-filters'']] \<and>
   launched (snd (generate_audio_filter env_ok default_effects
      (snd (generate_audio_filter env_ok default_effects empty_world)))) =
     [[''ffmpeg'', ''-filters''], [''ffmpeg'', ''-filters'']]"
  by (simp add: generate_audio_filter_launched audio_probe_count_def env_ok_def
      default_effects_def empty_world_def)

end
